theory Spec2Isabelle
  imports Main
begin

section \<open>Data model\<close>

text \<open>
  The realtime room engine of \<^verbatim>\<open>src/server/websocket.ts\<close>. Identifiers are the
  TypeScript ones: a user id is a string, room, persona and message ids are numbers
  (modelled as \<open>int\<close>). A connection is addressed by its position in the server's
  client collection \<^verbatim>\<open>wss.clients\<close>.
\<close>

record User =
  user_id :: string
  user_name :: string

record Persona =
  persona_id :: int
  persona_name :: string
  persona_description :: string
  persona_samplePrompt :: string

record InsertMessage =
  im_roomId :: int
  im_userId :: "string option"
  im_personaId :: "int option"
  im_message :: string

record Message =
  msg_id :: int
  msg_roomId :: int
  msg_userId :: "string option"
  msg_personaId :: "int option"
  msg_message :: string
  msg_isStarred :: bool

record InsertAttachment =
  ia_messageId :: int
  ia_url :: string
  ia_fileName :: string
  ia_fileSize :: int
  ia_fileType :: string
  ia_attachmentType :: string

record Attachment =
  att_id :: int
  att_messageId :: int
  att_url :: string
  att_fileName :: string
  att_fileSize :: int
  att_fileType :: string
  att_attachmentType :: string

text \<open>\<^verbatim>\<open>ChatMessage\<close>: a stored message spread into an object that may also carry
  the author's user record, the persona and the attachments.\<close>

record ChatMessage =
  cm_base :: Message
  cm_user :: "User option"
  cm_persona :: "Persona option"
  cm_attachments :: "Attachment list option"

text \<open>The outbound envelopes \<^verbatim>\<open>{type, payload}\<close>.\<close>

datatype WSMessage =
    Pong
  | UserJoined string int
  | UserLeft string int
  | RoomHistory "ChatMessage list"
  | ActiveUsers int "string list"
  | NewMessage ChatMessage
  | PersonaTyping int int
  | AiError int string
  | Error string

datatype ReadyState = CONNECTING | OPEN | CLOSING | CLOSED

text \<open>\<^verbatim>\<open>interface WebSocketClient extends WebSocket { userId?: string; roomId?: number }\<close>\<close>

record WebSocketClient =
  ws_userId :: "string option"
  ws_roomId :: "int option"
  ws_readyState :: ReadyState

section \<open>The storage collaborator\<close>

text \<open>
  \<^verbatim>\<open>./storage\<close> is imported by the engine but is not part of the sources at hand, so
  it is modelled from the specification (sections 3, 4.2 and 6). Every asynchronous call
  may be rejected; which calls are rejected is fixed by a script of outcomes that is
  consumed one entry per asynchronous call (\<open>True\<close>: the call is rejected; an exhausted
  script: the call goes through). What the specification leaves open about the history
  query is a parameter of the storage, \<open>st_history\<close>.
\<close>

record Storage =
  st_users :: "User list"
  st_personas :: "Persona list"
  st_messages :: "Message list"
  st_attachments :: "Attachment list"
  st_presence :: "(int \<times> string) list"
  st_nextMessageId :: int
  st_nextAttachmentId :: int
  st_faults :: "bool list"
  st_history :: "int \<Rightarrow> nat option \<Rightarrow> Message list \<Rightarrow> ChatMessage list"

definition next_fault :: "Storage \<Rightarrow> bool \<times> Storage" where
  "next_fault st =
     (case st_faults st of
        [] \<Rightarrow> (False, st)
      | f # fs \<Rightarrow> (f, st\<lparr>st_faults := fs\<rparr>))"

text \<open>Whether the \<open>k\<close>-th asynchronous storage call from now on is rejected.\<close>

definition fault_at :: "nat \<Rightarrow> Storage \<Rightarrow> bool" where
  "fault_at k st = (k < length (st_faults st) \<and> st_faults st ! k)"

text \<open>
  Modelled from the spec: \<^verbatim>\<open>storage.createMessage\<close> is missing. Section 3: a Message is
  \<^verbatim>\<open>{id, roomId, authorUserId, authorPersonaId, body, createdAt, starred}\<close>, exactly one of
  the two authors is set and a message with neither is invalid; ids are assigned by the
  gateway in creation order. The newest message is kept first. \<open>Inl\<close> is a rejected call.
\<close>

definition exactlyOneAuthor :: "InsertMessage \<Rightarrow> bool" where
  "exactlyOneAuthor ins = ((im_userId ins = None) \<noteq> (im_personaId ins = None))"

definition createMessage :: "InsertMessage \<Rightarrow> Storage \<Rightarrow> Storage + (Message \<times> Storage)" where
  "createMessage ins st =
     (case next_fault st of
        (True, st') \<Rightarrow> Inl st'
      | (False, st') \<Rightarrow>
          if \<not> exactlyOneAuthor ins then Inl st'
          else
            let m = \<lparr>msg_id = st_nextMessageId st', msg_roomId = im_roomId ins,
                     msg_userId = im_userId ins, msg_personaId = im_personaId ins,
                     msg_message = im_message ins, msg_isStarred = False\<rparr>
            in Inr (m, st'\<lparr>st_messages := m # st_messages st',
                          st_nextMessageId := st_nextMessageId st' + 1\<rparr>))"

text \<open>
  Modelled from the spec: \<^verbatim>\<open>storage.createAttachment\<close> is missing. Section 3: an
  Attachment is created only after its parent Message exists; a request that references
  a message that does not exist fails.
\<close>

definition createAttachment :: "InsertAttachment \<Rightarrow> Storage \<Rightarrow> Storage + (Attachment \<times> Storage)" where
  "createAttachment ins st =
     (case next_fault st of
        (True, st') \<Rightarrow> Inl st'
      | (False, st') \<Rightarrow>
          if ia_messageId ins \<notin> set (map msg_id (st_messages st')) then Inl st'
          else
            let a = \<lparr>att_id = st_nextAttachmentId st', att_messageId = ia_messageId ins,
                     att_url = ia_url ins, att_fileName = ia_fileName ins,
                     att_fileSize = ia_fileSize ins, att_fileType = ia_fileType ins,
                     att_attachmentType = ia_attachmentType ins\<rparr>
            in Inr (a, st'\<lparr>st_attachments := st_attachments st' @ [a],
                          st_nextAttachmentId := st_nextAttachmentId st' + 1\<rparr>))"

text \<open>Modelled from the spec: \<^verbatim>\<open>storage.getUser\<close> is missing (section 6, Identity
  Gateway \<^verbatim>\<open>getUser(id)\<close>); an unknown id yields no user.\<close>

definition getUser :: "string \<Rightarrow> Storage \<Rightarrow> Storage + (User option \<times> Storage)" where
  "getUser uid st =
     (case next_fault st of
        (True, st') \<Rightarrow> Inl st'
      | (False, st') \<Rightarrow> Inr (find (\<lambda>u. user_id u = uid) (st_users st'), st'))"

text \<open>Modelled from the spec: \<^verbatim>\<open>storage.getPersona\<close> is missing (section 6, Persona
  Gateway \<^verbatim>\<open>getPersona(id)\<close>); an unknown id yields no persona.\<close>

definition getPersona :: "int \<Rightarrow> Storage \<Rightarrow> Storage + (Persona option \<times> Storage)" where
  "getPersona pid st =
     (case next_fault st of
        (True, st') \<Rightarrow> Inl st'
      | (False, st') \<Rightarrow> Inr (find (\<lambda>p. persona_id p = pid) (st_personas st'), st'))"

text \<open>
  Modelled from the spec: \<^verbatim>\<open>storage.getMessagesByRoom(roomId, limit?)\<close> is missing.
  Section 6 gives its name and its parameters only: which of the stored messages it
  answers with, in which order, how the limit cuts them and what it embeds in them is
  not stated. The answer is therefore left open: it is whatever the parameter
  \<open>st_history\<close> of the storage yields for the room id, the limit and the messages stored
  at the time of the call.
\<close>

definition getMessagesByRoom ::
    "int \<Rightarrow> nat option \<Rightarrow> Storage \<Rightarrow> Storage + (ChatMessage list \<times> Storage)" where
  "getMessagesByRoom rid limit st =
     (case next_fault st of
        (True, st') \<Rightarrow> Inl st'
      | (False, st') \<Rightarrow> Inr (st_history st' rid limit (st_messages st'), st'))"

text \<open>
  Modelled from the spec: the Room Presence Tracker (\<^verbatim>\<open>storage.addActiveUser\<close>,
  \<^verbatim>\<open>storage.removeActiveUser\<close>, \<^verbatim>\<open>storage.getActiveUsers\<close>) is missing. Section 4.2: it
  keeps a reference count per \<open>(roomId, userId)\<close>, not a boolean flag; removal drops the
  user from the active set only when the last reference is released. The count of a pair
  is the number of its occurrences in \<open>st_presence\<close>. The three calls are synchronous in
  the engine, so they are never rejected.
\<close>

definition addActiveUser :: "int \<Rightarrow> string \<Rightarrow> Storage \<Rightarrow> Storage" where
  "addActiveUser rid uid st = st\<lparr>st_presence := (rid, uid) # st_presence st\<rparr>"

definition removeActiveUser :: "int \<Rightarrow> string \<Rightarrow> Storage \<Rightarrow> Storage" where
  "removeActiveUser rid uid st = st\<lparr>st_presence := remove1 (rid, uid) (st_presence st)\<rparr>"

definition getActiveUsers :: "int \<Rightarrow> Storage \<Rightarrow> string list" where
  "getActiveUsers rid st = remdups (map snd (filter (\<lambda>p. fst p = rid) (st_presence st)))"

section \<open>The engine state and its primitive effects\<close>

text \<open>
  Everything the engine does to the outside is recorded, in order, in a trace: a unicast
  \<^verbatim>\<open>ws.send\<close>, a \<^verbatim>\<open>broadcastToRoom\<close> call with the connections it delivered to, a message or
  attachment that the storage created, and a call of the generation capability with its
  arguments. A handler is modelled as one atomic step: other handlers do not run at its
  \<^verbatim>\<open>await\<close> points. What they may have stored by then shows only in the answer of the
  history query, which is a parameter of the storage.
\<close>

datatype Effect =
    SendTo nat WSMessage
  | Broadcast int WSMessage "nat list"
  | CreatedMessage Message
  | CreatedAttachment Attachment
  | Generate Persona "ChatMessage list"

record World =
  clients :: "WebSocketClient list"
  storage :: Storage
  trace :: "Effect list"

definition emit :: "Effect \<Rightarrow> World \<Rightarrow> World" where
  "emit e w = w\<lparr>trace := trace w @ [e]\<rparr>"

text \<open>\<^verbatim>\<open>ws.send\<close>: the \<^verbatim>\<open>ws\<close> library drops data sent on a socket that is no longer
  open.\<close>

definition wsSend :: "nat \<Rightarrow> WSMessage \<Rightarrow> World \<Rightarrow> World" where
  "wsSend cid data w =
     (if ws_readyState (clients w ! cid) = OPEN then emit (SendTo cid data) w else w)"

definition sendErrorToClient :: "nat \<Rightarrow> string \<Rightarrow> World \<Rightarrow> World" where
  "sendErrorToClient cid errorMessage w =
     (if ws_readyState (clients w ! cid) = OPEN then emit (SendTo cid (Error errorMessage)) w
      else w)"

text \<open>The connections a broadcast to a room reaches: those whose \<^verbatim>\<open>roomId\<close> is the room
  and whose socket is open, in the order of \<^verbatim>\<open>wss.clients\<close>.\<close>

definition recipients :: "int \<Rightarrow> WebSocketClient list \<Rightarrow> nat list" where
  "recipients rid cs =
     filter (\<lambda>i. ws_roomId (cs ! i) = Some rid \<and> ws_readyState (cs ! i) = OPEN) [0..<length cs]"

definition broadcastToRoom :: "int \<Rightarrow> WSMessage \<Rightarrow> World \<Rightarrow> World" where
  "broadcastToRoom rid data w = emit (Broadcast rid data (recipients rid (clients w))) w"

definition broadcastActiveUsers :: "int \<Rightarrow> World \<Rightarrow> World" where
  "broadcastActiveUsers rid w =
     (let activeUsers = getActiveUsers rid (storage w)
      in broadcastToRoom rid (ActiveUsers rid activeUsers) w)"

definition sendRoomHistory :: "nat \<Rightarrow> int \<Rightarrow> World \<Rightarrow> World" where
  "sendRoomHistory cid rid w =
     (case getMessagesByRoom rid None (storage w) of
        Inl st' \<Rightarrow> sendErrorToClient cid ''Failed to load room history'' (w\<lparr>storage := st'\<rparr>)
      | Inr (msgs, st') \<Rightarrow> wsSend cid (RoomHistory msgs) (w\<lparr>storage := st'\<rparr>))"

section \<open>Joining and leaving a room\<close>

text \<open>
  \<^verbatim>\<open>handleJoinRoom\<close>. \<^verbatim>\<open>sendRoomHistory\<close> is asynchronous and not awaited: it starts its
  storage query at once, and its reply is sent after the synchronous rest of the handler
  (the active-users broadcast) has run.
\<close>

definition handleJoinRoom :: "nat \<Rightarrow> string \<Rightarrow> int \<Rightarrow> World \<Rightarrow> World" where
  "handleJoinRoom cid userId roomId w =
     (let w1 = w\<lparr>clients := (clients w)[cid := (clients w ! cid)\<lparr>ws_userId := Some userId,
                                                                 ws_roomId := Some roomId\<rparr>]\<rparr>;
          w2 = w1\<lparr>storage := addActiveUser roomId userId (storage w1)\<rparr>;
          w3 = broadcastToRoom roomId (UserJoined userId roomId) w2;
          w4 = broadcastActiveUsers roomId w3
      in sendRoomHistory cid roomId w4)"

text \<open>JavaScript truthiness of \<^verbatim>\<open>userId && roomId\<close>: both are set, the string is not
  empty and the number is not zero. The result carries the two values.\<close>

definition joined :: "WebSocketClient \<Rightarrow> (string \<times> int) option" where
  "joined ws =
     (case ws_userId ws of
        None \<Rightarrow> None
      | Some u \<Rightarrow>
          (case ws_roomId ws of
             None \<Rightarrow> None
           | Some r \<Rightarrow> if u \<noteq> [] \<and> r \<noteq> 0 then Some (u, r) else None))"

definition handleLeaveRoom :: "nat \<Rightarrow> World \<Rightarrow> World" where
  "handleLeaveRoom cid w =
     (case joined (clients w ! cid) of
        None \<Rightarrow> w
      | Some (userId, roomId) \<Rightarrow>
          let w1 = w\<lparr>storage := removeActiveUser roomId userId (storage w)\<rparr>;
              w2 = broadcastToRoom roomId (UserLeft userId roomId) w1;
              w3 = broadcastActiveUsers roomId w2
          in w3\<lparr>clients := (clients w3)[cid := (clients w3 ! cid)\<lparr>ws_userId := None,
                                                                  ws_roomId := None\<rparr>]\<rparr>)"

text \<open>The \<^verbatim>\<open>close\<close> event of a connection: the socket is closed when the handler runs,
  and the handler calls \<^verbatim>\<open>handleLeaveRoom\<close>.\<close>

definition onClose :: "nat \<Rightarrow> World \<Rightarrow> World" where
  "onClose cid w =
     handleLeaveRoom cid
       (w\<lparr>clients := (clients w)[cid := (clients w ! cid)\<lparr>ws_readyState := CLOSED\<rparr>]\<rparr>)"

text \<open>The \<^verbatim>\<open>connection\<close> event: a new open connection with no identity and no room.\<close>

definition onConnection :: "World \<Rightarrow> World" where
  "onConnection w =
     w\<lparr>clients := clients w @ [\<lparr>ws_userId = None, ws_roomId = None, ws_readyState = OPEN\<rparr>]\<rparr>"

section \<open>Storage calls made by the handlers\<close>

text \<open>An awaited storage call inside a handler: the storage part of the state is
  replaced, and a creation that went through is recorded in the trace. \<open>Inl\<close> is the
  exception of a rejected call, raised in the state reached so far.\<close>

definition awaitCreateMessage :: "InsertMessage \<Rightarrow> World \<Rightarrow> World + (Message \<times> World)" where
  "awaitCreateMessage ins w =
     (case createMessage ins (storage w) of
        Inl st' \<Rightarrow> Inl (w\<lparr>storage := st'\<rparr>)
      | Inr (m, st') \<Rightarrow> Inr (m, emit (CreatedMessage m) (w\<lparr>storage := st'\<rparr>)))"

definition awaitCreateAttachment ::
    "InsertAttachment \<Rightarrow> World \<Rightarrow> World + (Attachment \<times> World)" where
  "awaitCreateAttachment ins w =
     (case createAttachment ins (storage w) of
        Inl st' \<Rightarrow> Inl (w\<lparr>storage := st'\<rparr>)
      | Inr (a, st') \<Rightarrow> Inr (a, emit (CreatedAttachment a) (w\<lparr>storage := st'\<rparr>)))"

definition awaitGetUser :: "string \<Rightarrow> World \<Rightarrow> World + (User option \<times> World)" where
  "awaitGetUser uid w =
     (case getUser uid (storage w) of
        Inl st' \<Rightarrow> Inl (w\<lparr>storage := st'\<rparr>)
      | Inr (u, st') \<Rightarrow> Inr (u, w\<lparr>storage := st'\<rparr>))"

definition awaitGetPersona :: "int \<Rightarrow> World \<Rightarrow> World + (Persona option \<times> World)" where
  "awaitGetPersona pid w =
     (case getPersona pid (storage w) of
        Inl st' \<Rightarrow> Inl (w\<lparr>storage := st'\<rparr>)
      | Inr (p, st') \<Rightarrow> Inr (p, w\<lparr>storage := st'\<rparr>))"

definition awaitGetMessagesByRoom ::
    "int \<Rightarrow> nat option \<Rightarrow> World \<Rightarrow> World + (ChatMessage list \<times> World)" where
  "awaitGetMessagesByRoom rid limit w =
     (case getMessagesByRoom rid limit (storage w) of
        Inl st' \<Rightarrow> Inl (w\<lparr>storage := st'\<rparr>)
      | Inr (ms, st') \<Rightarrow> Inr (ms, w\<lparr>storage := st'\<rparr>))"

section \<open>Sending a message and the persona reply\<close>

text \<open>The generation capability \<^verbatim>\<open>generateAIResponse(persona, context)\<close> is an external
  collaborator: a parameter of the handler. \<open>None\<close> is a failed call.\<close>

type_synonym Generator = "Persona \<Rightarrow> ChatMessage list \<Rightarrow> string option"

text \<open>\<^verbatim>\<open>{...message, user}\<close> and \<^verbatim>\<open>{...message, persona}\<close>.\<close>

definition withUser :: "Message \<Rightarrow> User option \<Rightarrow> ChatMessage" where
  "withUser m u = \<lparr>cm_base = m, cm_user = u, cm_persona = None, cm_attachments = None\<rparr>"

definition withPersona :: "Message \<Rightarrow> Persona option \<Rightarrow> ChatMessage" where
  "withPersona m p = \<lparr>cm_base = m, cm_user = None, cm_persona = p, cm_attachments = None\<rparr>"

text \<open>The context handed to the generator (lines 158 to 176): the message just sent,
  then the first three of the fetched messages whose id differs from it.\<close>

definition aiContext :: "Message \<Rightarrow> User option \<Rightarrow> ChatMessage list \<Rightarrow> ChatMessage list" where
  "aiContext userMessage user previousMessages =
     (let specialContext = [withUser userMessage user];
          filteredPreviousMessages =
            take 3 (filter (\<lambda>msg. msg_id (cm_base msg) \<noteq> msg_id userMessage) previousMessages)
      in specialContext @ filteredPreviousMessages)"

definition fallbackText :: string where
  "fallbackText = ''I'm having trouble accessing my knowledge. Please try again later.''"

text \<open>The body of the inner \<^verbatim>\<open>try\<close> (lines 145 to 199). \<open>Inl\<close>: an exception left the
  block; \<open>Inr\<close>: the block ended or returned.\<close>

definition generateReply ::
    "Generator \<Rightarrow> nat \<Rightarrow> int \<Rightarrow> int \<Rightarrow> Message \<Rightarrow> User option \<Rightarrow> World \<Rightarrow> World + World" where
  "generateReply gen cid roomId personaId userMessage user w =
     (let w1 = broadcastToRoom roomId (PersonaTyping personaId roomId) w in
      case awaitGetPersona personaId w1 of
        Inl w2 \<Rightarrow> Inl w2
      | Inr (None, w2) \<Rightarrow> Inr (sendErrorToClient cid ''Persona not found'' w2)
      | Inr (Some persona, w2) \<Rightarrow>
          (case awaitGetMessagesByRoom roomId (Some 5) w2 of
             Inl w3 \<Rightarrow> Inl w3
           | Inr (previousMessages, w3) \<Rightarrow>
               let ctx = aiContext userMessage user previousMessages;
                   w4 = emit (Generate persona ctx) w3
               in (case gen persona ctx of
                     None \<Rightarrow> Inl w4
                   | Some aiResponse \<Rightarrow>
                       (case awaitCreateMessage
                               \<lparr>im_roomId = roomId, im_userId = None,
                                im_personaId = Some personaId, im_message = aiResponse\<rparr> w4 of
                          Inl w5 \<Rightarrow> Inl w5
                        | Inr (aiMessage, w5) \<Rightarrow>
                            Inr (broadcastToRoom roomId
                                   (NewMessage (withPersona aiMessage (Some persona))) w5)))))"

text \<open>The \<^verbatim>\<open>catch\<close> of the inner \<^verbatim>\<open>try\<close> (lines 200 to 233), with its own nested
  \<^verbatim>\<open>try\<close>/\<^verbatim>\<open>catch\<close>.\<close>

definition fallbackReply :: "int \<Rightarrow> int \<Rightarrow> World \<Rightarrow> World" where
  "fallbackReply roomId personaId w =
     (case awaitGetPersona personaId w of
        Inl w1 \<Rightarrow> broadcastToRoom roomId (AiError personaId ''Failed to generate AI response'') w1
      | Inr (persona, w1) \<Rightarrow>
          (case awaitCreateMessage
                  \<lparr>im_roomId = roomId, im_userId = None,
                   im_personaId = Some personaId, im_message = fallbackText\<rparr> w1 of
             Inl w2 \<Rightarrow>
               broadcastToRoom roomId (AiError personaId ''Failed to generate AI response'') w2
           | Inr (errorMessage, w2) \<Rightarrow>
               broadcastToRoom roomId (NewMessage (withPersona errorMessage persona)) w2))"

text \<open>\<^verbatim>\<open>if (personaId)\<close>: the optional number is present and not zero.\<close>

definition truthyId :: "int option \<Rightarrow> int option" where
  "truthyId p = (case p of None \<Rightarrow> None | Some n \<Rightarrow> if n \<noteq> 0 then Some n else None)"

definition handleSendMessage :: "Generator \<Rightarrow> nat \<Rightarrow> string \<Rightarrow> int option \<Rightarrow> World \<Rightarrow> World" where
  "handleSendMessage gen cid message personaId w =
     (case joined (clients w ! cid) of
        None \<Rightarrow> sendErrorToClient cid ''You must join a room before sending messages'' w
      | Some (userId, roomId) \<Rightarrow>
          (case awaitCreateMessage
                  \<lparr>im_roomId = roomId, im_userId = Some userId,
                   im_personaId = None, im_message = message\<rparr> w of
             Inl w1 \<Rightarrow> sendErrorToClient cid ''Failed to process your message'' w1
           | Inr (userMessage, w1) \<Rightarrow>
               (case awaitGetUser userId w1 of
                  Inl w2 \<Rightarrow> sendErrorToClient cid ''Failed to process your message'' w2
                | Inr (user, w2) \<Rightarrow>
                    let chatMessage = withUser userMessage user;
                        w3 = broadcastToRoom roomId (NewMessage chatMessage) w2
                    in (case truthyId personaId of
                          None \<Rightarrow> w3
                        | Some pid \<Rightarrow>
                            (case generateReply gen cid roomId pid userMessage user w3 of
                               Inl w4 \<Rightarrow> fallbackReply roomId pid w4
                             | Inr w4 \<Rightarrow> w4)))))"

section \<open>Attachments and voice messages\<close>

definition validTypes :: "string list" where
  "validTypes = [''image'', ''audio'', ''video'', ''document'', ''voice_message'']"

definition handleSendAttachment ::
    "nat \<Rightarrow> string \<Rightarrow> string \<Rightarrow> int \<Rightarrow> string \<Rightarrow> string \<Rightarrow> World \<Rightarrow> World" where
  "handleSendAttachment cid url fileName fileSize fileType attachmentType w =
     (case joined (clients w ! cid) of
        None \<Rightarrow> sendErrorToClient cid ''You must join a room before sending attachments'' w
      | Some (userId, roomId) \<Rightarrow>
          if attachmentType \<notin> set validTypes
          then sendErrorToClient cid ''Invalid attachment type'' w
          else
            (case awaitCreateMessage
                    \<lparr>im_roomId = roomId, im_userId = Some userId, im_personaId = None,
                     im_message = ''Sent '' @ attachmentType\<rparr> w of
               Inl w1 \<Rightarrow> sendErrorToClient cid ''Failed to process attachment'' w1
             | Inr (message, w1) \<Rightarrow>
                 (case awaitCreateAttachment
                         \<lparr>ia_messageId = msg_id message, ia_url = url, ia_fileName = fileName,
                          ia_fileSize = fileSize, ia_fileType = fileType,
                          ia_attachmentType = attachmentType\<rparr> w1 of
                    Inl w2 \<Rightarrow> sendErrorToClient cid ''Failed to process attachment'' w2
                  | Inr (attachment, w2) \<Rightarrow>
                      (case awaitGetUser userId w2 of
                         Inl w3 \<Rightarrow> sendErrorToClient cid ''Failed to process attachment'' w3
                       | Inr (user, w3) \<Rightarrow>
                           let chatMessage = (withUser message user)
                                               \<lparr>cm_attachments := Some [attachment]\<rparr>
                           in broadcastToRoom roomId (NewMessage chatMessage) w3))))"

text \<open>\<^verbatim>\<open>fileType || 'audio/webm'\<close>: an absent or empty file type is replaced.\<close>

definition fileTypeOrDefault :: "string option \<Rightarrow> string" where
  "fileTypeOrDefault fileType =
     (case fileType of None \<Rightarrow> ''audio/webm'' | Some t \<Rightarrow> if t = [] then ''audio/webm'' else t)"

definition handleSendVoiceMessage ::
    "nat \<Rightarrow> string \<Rightarrow> string \<Rightarrow> int \<Rightarrow> string option \<Rightarrow> World \<Rightarrow> World" where
  "handleSendVoiceMessage cid url fileName fileSize fileType w =
     (case joined (clients w ! cid) of
        None \<Rightarrow> sendErrorToClient cid ''You must join a room before sending voice messages'' w
      | Some (userId, roomId) \<Rightarrow>
          (case awaitCreateMessage
                  \<lparr>im_roomId = roomId, im_userId = Some userId, im_personaId = None,
                   im_message = ''Voice message''\<rparr> w of
             Inl w1 \<Rightarrow> sendErrorToClient cid ''Failed to process voice message'' w1
           | Inr (insertedMessage, w1) \<Rightarrow>
               (case awaitCreateAttachment
                       \<lparr>ia_messageId = msg_id insertedMessage, ia_url = url,
                        ia_fileName = fileName, ia_fileSize = fileSize,
                        ia_fileType = fileTypeOrDefault fileType,
                        ia_attachmentType = ''voice_message''\<rparr> w1 of
                  Inl w2 \<Rightarrow> sendErrorToClient cid ''Failed to process voice message'' w2
                | Inr (attachment, w2) \<Rightarrow>
                    (case awaitGetUser userId w2 of
                       Inl w3 \<Rightarrow> sendErrorToClient cid ''Failed to process voice message'' w3
                     | Inr (user, w3) \<Rightarrow>
                         let chatMessage = (withUser insertedMessage user)
                                             \<lparr>cm_attachments := Some [attachment]\<rparr>
                         in broadcastToRoom roomId (NewMessage chatMessage) w3))))"

section \<open>The protocol dispatcher\<close>

text \<open>An inbound frame after \<^verbatim>\<open>JSON.parse\<close>: one of the known envelopes, an envelope of
  an unknown type, or text that does not parse.\<close>

datatype Inbound =
    JoinRoom string int
  | LeaveRoom
  | SendMessage string "int option"
  | SendAttachment string string int string string
  | SendVoiceMessage string string int "string option"
  | Ping
  | UnknownType string
  | Malformed

fun onMessage :: "Generator \<Rightarrow> nat \<Rightarrow> Inbound \<Rightarrow> World \<Rightarrow> World" where
  "onMessage gen cid (JoinRoom userId roomId) w = handleJoinRoom cid userId roomId w"
| "onMessage gen cid LeaveRoom w = handleLeaveRoom cid w"
| "onMessage gen cid (SendMessage message personaId) w =
     handleSendMessage gen cid message personaId w"
| "onMessage gen cid (SendAttachment url fileName fileSize fileType attachmentType) w =
     handleSendAttachment cid url fileName fileSize fileType attachmentType w"
| "onMessage gen cid (SendVoiceMessage url fileName fileSize fileType) w =
     handleSendVoiceMessage cid url fileName fileSize fileType w"
| "onMessage gen cid Ping w = wsSend cid Pong w"
| "onMessage gen cid (UnknownType t) w = w"
| "onMessage gen cid Malformed w = sendErrorToClient cid ''Failed to process your request'' w"

section \<open>Sequences of join and leave operations\<close>

datatype RoomOp = Join nat string int | Leave nat

fun run :: "RoomOp list \<Rightarrow> World \<Rightarrow> World" where
  "run [] w = w"
| "run (Join cid userId roomId # ops) w = run ops (handleJoinRoom cid userId roomId w)"
| "run (Leave cid # ops) w = run ops (handleLeaveRoom cid w)"

text \<open>A connection is attached to \<open>(roomId, userId)\<close> when it carries both values.\<close>

definition attachedTo :: "int \<Rightarrow> string \<Rightarrow> WebSocketClient \<Rightarrow> bool" where
  "attachedTo rid uid ws = (ws_userId ws = Some uid \<and> ws_roomId ws = Some rid)"

definition unattached :: "WebSocketClient \<Rightarrow> bool" where
  "unattached ws = (ws_userId ws = None \<and> ws_roomId ws = None)"

text \<open>A sequence in which every operation addresses an existing connection and every join
  is issued on a connection that is not attached at that moment.\<close>

fun joinsWhenDetached :: "RoomOp list \<Rightarrow> World \<Rightarrow> bool" where
  "joinsWhenDetached [] w = True"
| "joinsWhenDetached (Join cid userId roomId # ops) w =
     (cid < length (clients w) \<and> unattached (clients w ! cid) \<and>
      joinsWhenDetached ops (handleJoinRoom cid userId roomId w))"
| "joinsWhenDetached (Leave cid # ops) w =
     (cid < length (clients w) \<and> joinsWhenDetached ops (handleLeaveRoom cid w))"

text \<open>The reference count of every pair is the number of connections attached to it.\<close>

definition presenceCounted :: "World \<Rightarrow> bool" where
  "presenceCounted w =
     (\<forall>rid uid. count_list (st_presence (storage w)) (rid, uid) =
                 length (filter (attachedTo rid uid) (clients w)))"

section \<open>Reading the trace\<close>

text \<open>The calls of the generation capability in a trace, in order.\<close>

fun generateCalls :: "Effect list \<Rightarrow> (Persona \<times> ChatMessage list) list" where
  "generateCalls [] = []"
| "generateCalls (Generate p ctx # es) = (p, ctx) # generateCalls es"
| "generateCalls (e # es) = generateCalls es"

section \<open>Auxiliary notions for the proofs\<close>

text \<open>The storage after one asynchronous call has consumed its entry of the script.\<close>

definition advance :: "Storage \<Rightarrow> Storage" where
  "advance st = st\<lparr>st_faults := tl (st_faults st)\<rparr>"

section \<open>A concrete scenario\<close>

text \<open>Section 8 of the specification: users A and B in room 7, persona 3 is Sherlock
  Holmes.\<close>

definition alice :: User where
  "alice = \<lparr>user_id = ''alice'', user_name = ''A''\<rparr>"

definition bob :: User where
  "bob = \<lparr>user_id = ''bob'', user_name = ''B''\<rparr>"

definition sherlock :: Persona where
  "sherlock = \<lparr>persona_id = 3, persona_name = ''Sherlock Holmes'',
               persona_description = ''Consulting detective'',
               persona_samplePrompt = ''Elementary''\<rparr>"

text \<open>A history query for the scenario: the messages of the room in the order of the
  stored list, which has the newest message first, cut to the limit.\<close>

definition bare :: "Message \<Rightarrow> ChatMessage" where
  "bare m = \<lparr>cm_base = m, cm_user = None, cm_persona = None, cm_attachments = None\<rparr>"

definition newestFirst :: "int \<Rightarrow> nat option \<Rightarrow> Message list \<Rightarrow> ChatMessage list" where
  "newestFirst rid limit ms =
     map bare (case limit of
                 None \<Rightarrow> filter (\<lambda>m. msg_roomId m = rid) ms
               | Some n \<Rightarrow> take n (filter (\<lambda>m. msg_roomId m = rid) ms))"


definition initialStorage :: Storage where
  "initialStorage =
     \<lparr>st_users = [alice, bob], st_personas = [sherlock], st_messages = [],
      st_attachments = [], st_presence = [], st_nextMessageId = 1,
      st_nextAttachmentId = 1, st_faults = [], st_history = newestFirst\<rparr>"

definition initialWorld :: World where
  "initialWorld = \<lparr>clients = [], storage = initialStorage, trace = []\<rparr>"

text \<open>Two connections are accepted; A joins room 7 on connection 0, B on connection 1.\<close>

definition twoConnections :: World where
  "twoConnections = onConnection (onConnection initialWorld)"

definition room7 :: World where
  "room7 = handleJoinRoom 1 ''bob'' 7 (handleJoinRoom 0 ''alice'' 7 twoConnections)"

text \<open>The same with room id 0.\<close>

definition room0 :: World where
  "room0 = handleJoinRoom 1 ''bob'' 0 (handleJoinRoom 0 ''alice'' 0 twoConnections)"

text \<open>Room 7 with a storage that rejects its sixth asynchronous call; and room 7 with
  four earlier messages, where a fifth message of another connection, with id 6, becomes
  visible to the history query while a handler is waiting.\<close>

definition room7Failing :: World where
  "room7Failing =
     room7\<lparr>storage := (storage room7)\<lparr>st_faults := [False, False, False, False, False, True]\<rparr>\<rparr>"



definition elementary :: Generator where
  "elementary p ctx = Some ''Elementary, my dear Watson.''"

definition failing :: Generator where
  "failing p ctx = None"

section \<open>Facts about the storage model\<close>

lemma next_fault_eq: "next_fault st = (fault_at 0 st, advance st)"
  by (cases "st_faults st") (simp_all add: next_fault_def fault_at_def advance_def)

lemma fault_at_advance: "fault_at k (advance st) = fault_at (Suc k) st"
  by (cases "st_faults st") (simp_all add: fault_at_def advance_def)

lemma advance_fields:
  "st_users (advance st) = st_users st"
  "st_personas (advance st) = st_personas st"
  "st_messages (advance st) = st_messages st"
  "st_attachments (advance st) = st_attachments st"
  "st_presence (advance st) = st_presence st"
  "st_nextMessageId (advance st) = st_nextMessageId st"
  "st_nextAttachmentId (advance st) = st_nextAttachmentId st"
  "st_history (advance st) = st_history st"
  by (simp_all add: advance_def)

lemma createMessage_eq:
  "createMessage ins st =
     (if fault_at 0 st \<or> \<not> exactlyOneAuthor ins
      then Inl (advance st)
      else Inr (\<lparr>msg_id = st_nextMessageId st, msg_roomId = im_roomId ins,
                 msg_userId = im_userId ins, msg_personaId = im_personaId ins,
                 msg_message = im_message ins, msg_isStarred = False\<rparr>,
                (advance st)\<lparr>st_messages :=
                    \<lparr>msg_id = st_nextMessageId st, msg_roomId = im_roomId ins,
                     msg_userId = im_userId ins, msg_personaId = im_personaId ins,
                     msg_message = im_message ins, msg_isStarred = False\<rparr> # st_messages st,
                  st_nextMessageId := st_nextMessageId st + 1\<rparr>))"
  by (cases "fault_at 0 st")
     (simp_all add: createMessage_def next_fault_eq advance_fields Let_def)

lemma createAttachment_eq:
  "createAttachment ins st =
     (if fault_at 0 st \<or> ia_messageId ins \<notin> msg_id ` set (st_messages st)
      then Inl (advance st)
      else Inr (\<lparr>att_id = st_nextAttachmentId st, att_messageId = ia_messageId ins,
                 att_url = ia_url ins, att_fileName = ia_fileName ins,
                 att_fileSize = ia_fileSize ins, att_fileType = ia_fileType ins,
                 att_attachmentType = ia_attachmentType ins\<rparr>,
                (advance st)\<lparr>st_attachments := st_attachments st @
                    [\<lparr>att_id = st_nextAttachmentId st, att_messageId = ia_messageId ins,
                      att_url = ia_url ins, att_fileName = ia_fileName ins,
                      att_fileSize = ia_fileSize ins, att_fileType = ia_fileType ins,
                      att_attachmentType = ia_attachmentType ins\<rparr>],
                  st_nextAttachmentId := st_nextAttachmentId st + 1\<rparr>))"
  by (cases "fault_at 0 st") (simp_all add: createAttachment_def next_fault_eq advance_fields Let_def)

lemma getUser_eq:
  "getUser uid st =
     (if fault_at 0 st then Inl (advance st)
      else Inr (find (\<lambda>u. user_id u = uid) (st_users st), advance st))"
  by (cases "fault_at 0 st") (simp_all add: getUser_def next_fault_eq advance_fields)

lemma getPersona_eq:
  "getPersona pid st =
     (if fault_at 0 st then Inl (advance st)
      else Inr (find (\<lambda>p. persona_id p = pid) (st_personas st), advance st))"
  by (cases "fault_at 0 st") (simp_all add: getPersona_def next_fault_eq advance_fields)

lemma getMessagesByRoom_eq:
  "getMessagesByRoom rid limit st =
     (if fault_at 0 st then Inl (advance st)
      else Inr (st_history st rid limit (st_messages st), advance st))"
  by (cases "fault_at 0 st")
     (simp_all add: getMessagesByRoom_def next_fault_eq advance_fields)

lemma twoConnections_eq:
  "twoConnections =
     \<lparr>clients = [\<lparr>ws_userId = None, ws_roomId = None, ws_readyState = OPEN\<rparr>,
                 \<lparr>ws_userId = None, ws_roomId = None, ws_readyState = OPEN\<rparr>],
      storage = initialStorage, trace = []\<rparr>"
  by (simp add: twoConnections_def onConnection_def initialWorld_def)

section \<open>Requests that are refused\<close>

text \<open>
  Claim C6. A \<^verbatim>\<open>send_message\<close> that arrives on an open connection with no attached
  identity or room (\<^verbatim>\<open>!userId || !roomId\<close>) changes neither the storage nor the
  connections, so no message is persisted, and it adds exactly one effect: an
  \<^verbatim>\<open>error\<close> envelope sent to the sender. Nothing is broadcast.
\<close>

theorem send_message_requires_join:
  assumes "joined (clients w ! cid) = None"
      and "ws_readyState (clients w ! cid) = OPEN"
  shows "storage (onMessage gen cid (SendMessage message personaId) w) = storage w \<and>
         clients (onMessage gen cid (SendMessage message personaId) w) = clients w \<and>
         trace (onMessage gen cid (SendMessage message personaId) w) =
           trace w @ [SendTo cid (Error ''You must join a room before sending messages'')]"
  using assms by (simp add: handleSendMessage_def sendErrorToClient_def emit_def)

theorem send_message_requires_join_witness:
  "joined (clients twoConnections ! 0) = None \<and>
   ws_readyState (clients twoConnections ! 0) = OPEN \<and>
   st_messages (storage (onMessage elementary 0 (SendMessage ''hello'' (Some 3)) twoConnections))
     = [] \<and>
   trace (onMessage elementary 0 (SendMessage ''hello'' (Some 3)) twoConnections) =
     [SendTo 0 (Error ''You must join a room before sending messages'')]"
proof -
  have j: "joined (clients twoConnections ! 0) = None"
    by (simp add: twoConnections_eq joined_def)
  have r: "ws_readyState (clients twoConnections ! 0) = OPEN"
    by (simp add: twoConnections_eq)
  show ?thesis
    using send_message_requires_join [OF j r, of elementary "''hello''" "Some 3"] j r
    by (simp add: twoConnections_eq initialStorage_def)
qed

text \<open>
  Claim C7. A \<^verbatim>\<open>send_attachment\<close> whose \<^verbatim>\<open>attachmentType\<close> is not one of image, audio,
  video, document, voice_message, arriving on an open connection, leaves the storage as
  it is (neither a message nor an attachment is created) and adds exactly one effect, an
  \<^verbatim>\<open>error\<close> envelope to the sender: the validation error when the connection has
  joined a room, and the join error, which is checked first, when it has not.
\<close>

theorem send_attachment_invalid_type:
  assumes "attachmentType \<notin> set validTypes"
      and "ws_readyState (clients w ! cid) = OPEN"
  shows "storage (onMessage gen cid
                    (SendAttachment url fileName fileSize fileType attachmentType) w)
           = storage w \<and>
         trace (onMessage gen cid
                  (SendAttachment url fileName fileSize fileType attachmentType) w)
           = trace w @
               [SendTo cid (Error (if joined (clients w ! cid) = None
                                   then ''You must join a room before sending attachments''
                                   else ''Invalid attachment type''))]"
  using assms
  by (simp add: handleSendAttachment_def sendErrorToClient_def emit_def split: option.splits)

lemma recipients_simps:
  "recipients rid [] = []"
  "recipients rid [a] = (if ws_roomId a = Some rid \<and> ws_readyState a = OPEN then [0] else [])"
  "recipients rid [a, b] =
     (if ws_roomId a = Some rid \<and> ws_readyState a = OPEN then [0] else []) @
     (if ws_roomId b = Some rid \<and> ws_readyState b = OPEN then [1] else [])"
  by (simp_all add: recipients_def upt_rec)

lemma room7_eq:
  "room7 =
     \<lparr>clients = [\<lparr>ws_userId = Some ''alice'', ws_roomId = Some 7, ws_readyState = OPEN\<rparr>,
                 \<lparr>ws_userId = Some ''bob'', ws_roomId = Some 7, ws_readyState = OPEN\<rparr>],
      storage = initialStorage\<lparr>st_presence := [(7, ''bob''), (7, ''alice'')]\<rparr>,
      trace = [Broadcast 7 (UserJoined ''alice'' 7) [0],
               Broadcast 7 (ActiveUsers 7 [''alice'']) [0],
               SendTo 0 (RoomHistory []),
               Broadcast 7 (UserJoined ''bob'' 7) [0, 1],
               Broadcast 7 (ActiveUsers 7 [''bob'', ''alice'']) [0, 1],
               SendTo 1 (RoomHistory [])]\<rparr>"
  by (simp add: room7_def twoConnections_eq handleJoinRoom_def broadcastToRoom_def
      broadcastActiveUsers_def sendRoomHistory_def getMessagesByRoom_eq fault_at_def
      addActiveUser_def getActiveUsers_def emit_def wsSend_def recipients_simps
      newestFirst_def initialStorage_def advance_def Let_def)

lemma room7_joined:
  "joined (clients room7 ! 0) = Some (''alice'', 7)"
  "ws_readyState (clients room7 ! 0) = OPEN"
  by (simp_all add: room7_eq joined_def)

theorem send_attachment_invalid_type_witness:
  "''exe'' \<notin> set validTypes \<and> ws_readyState (clients room7 ! 0) = OPEN \<and>
   storage (onMessage elementary 0 (SendAttachment ''u'' ''a.exe'' 10 ''bin'' ''exe'') room7)
     = storage room7 \<and>
   trace (onMessage elementary 0 (SendAttachment ''u'' ''a.exe'' 10 ''bin'' ''exe'') room7)
     = trace room7 @ [SendTo 0 (Error ''Invalid attachment type'')]"
proof -
  have v: "''exe'' \<notin> set validTypes"
    by (simp add: validTypes_def)
  show ?thesis
    using send_attachment_invalid_type [OF v room7_joined(2), of elementary "''u''" "''a.exe''" 10 "''bin''"]
      v room7_joined
    by simp
qed

section \<open>Effects of the primitives\<close>

lemma storage_emit [simp]: "storage (emit e w) = storage w"
  and clients_emit [simp]: "clients (emit e w) = clients w"
  and trace_emit [simp]: "trace (emit e w) = trace w @ [e]"
  by (simp_all add: emit_def)

lemma storage_broadcastToRoom [simp]: "storage (broadcastToRoom rid d w) = storage w"
  and clients_broadcastToRoom [simp]: "clients (broadcastToRoom rid d w) = clients w"
  and trace_broadcastToRoom [simp]:
    "trace (broadcastToRoom rid d w) = trace w @ [Broadcast rid d (recipients rid (clients w))]"
  by (simp_all add: broadcastToRoom_def)

lemma storage_sendErrorToClient [simp]: "storage (sendErrorToClient cid m w) = storage w"
  and clients_sendErrorToClient [simp]: "clients (sendErrorToClient cid m w) = clients w"
  and trace_sendErrorToClient:
    "trace (sendErrorToClient cid m w) =
       trace w @ (if ws_readyState (clients w ! cid) = OPEN then [SendTo cid (Error m)] else [])"
  by (simp_all add: sendErrorToClient_def)

lemma fault_at_update:
  "fault_at k (st_messages_update f st) = fault_at k st"
  "fault_at k (st_nextMessageId_update g st) = fault_at k st"
  "fault_at k (st_attachments_update h st) = fault_at k st"
  "fault_at k (st_nextAttachmentId_update g st) = fault_at k st"
  "fault_at k (st_presence_update q st) = fault_at k st"
  by (simp_all add: fault_at_def)

section \<open>Voice messages\<close>

text \<open>
  Claim C9. For a \<^verbatim>\<open>send_voice_message\<close> on a joined connection, the message that is
  stored (when the first storage call is not rejected) has the body \<^verbatim>\<open>Voice message\<close>,
  and the attachment that is stored (when the first two storage calls are not rejected)
  has the attachment type \<^verbatim>\<open>voice_message\<close> and the supplied file type, replaced by
  \<^verbatim>\<open>audio/webm\<close> when the file type is absent or empty. Nothing else is stored.
\<close>

theorem voice_message_defaults:
  assumes "joined (clients w ! cid) = Some (userId, roomId)"
  shows "st_messages (storage (onMessage gen cid
                                 (SendVoiceMessage url fileName fileSize fileType) w)) =
           (if fault_at 0 (storage w) then []
            else [\<lparr>msg_id = st_nextMessageId (storage w), msg_roomId = roomId,
                   msg_userId = Some userId, msg_personaId = None,
                   msg_message = ''Voice message'', msg_isStarred = False\<rparr>])
           @ st_messages (storage w) \<and>
         st_attachments (storage (onMessage gen cid
                                    (SendVoiceMessage url fileName fileSize fileType) w)) =
           st_attachments (storage w) @
           (if fault_at 0 (storage w) \<or> fault_at 1 (storage w) then []
            else [\<lparr>att_id = st_nextAttachmentId (storage w),
                   att_messageId = st_nextMessageId (storage w),
                   att_url = url, att_fileName = fileName, att_fileSize = fileSize,
                   att_fileType = (if fileType = None \<or> fileType = Some []
                                   then ''audio/webm'' else the fileType),
                   att_attachmentType = ''voice_message''\<rparr>])"
proof -
  have ft: "fileTypeOrDefault fileType =
              (if fileType = None \<or> fileType = Some [] then ''audio/webm'' else the fileType)"
    by (simp add: fileTypeOrDefault_def split: option.splits)
  show ?thesis
    using assms
    by (simp add: handleSendVoiceMessage_def awaitCreateMessage_def awaitCreateAttachment_def
        awaitGetUser_def createMessage_eq createAttachment_eq getUser_eq fault_at_advance
        advance_fields fault_at_update exactlyOneAuthor_def ft)
qed


theorem voice_message_defaults_witness:
  "joined (clients room7 ! 0) = Some (''alice'', 7) \<and>
   st_messages (storage (onMessage elementary 0
                           (SendVoiceMessage ''/v/1'' ''v.webm'' 10 None) room7)) =
     [\<lparr>msg_id = 1, msg_roomId = 7, msg_userId = Some ''alice'', msg_personaId = None,
       msg_message = ''Voice message'', msg_isStarred = False\<rparr>] \<and>
   st_attachments (storage (onMessage elementary 0
                              (SendVoiceMessage ''/v/1'' ''v.webm'' 10 None) room7)) =
     [\<lparr>att_id = 1, att_messageId = 1, att_url = ''/v/1'', att_fileName = ''v.webm'',
       att_fileSize = 10, att_fileType = ''audio/webm'',
       att_attachmentType = ''voice_message''\<rparr>]"
  using voice_message_defaults [OF room7_joined(1), of elementary "''/v/1''" "''v.webm''" 10 None]
    room7_joined(1)
  by (simp add: room7_eq initialStorage_def fault_at_def)

section \<open>Joining a room\<close>

lemma getActiveUsers_cong:
  "st_presence a = st_presence b \<Longrightarrow> getActiveUsers rid a = getActiveUsers rid b"
  by (simp add: getActiveUsers_def)

lemma getActiveUsers_advance [simp]: "getActiveUsers rid (advance st) = getActiveUsers rid st"
  by (simp add: getActiveUsers_def advance_fields)

lemma set_getActiveUsers:
  "uid \<in> set (getActiveUsers rid st) \<longleftrightarrow> (rid, uid) \<in> set (st_presence st)"
  by (force simp: getActiveUsers_def)

lemma sendRoomHistory_eq:
  "sendRoomHistory cid rid w =
     w\<lparr>storage := advance (storage w),
       trace := trace w @
         (if ws_readyState (clients w ! cid) = OPEN
          then [SendTo cid (if fault_at 0 (storage w) then Error ''Failed to load room history''
                            else RoomHistory (st_history (storage w) rid None
                                               (st_messages (storage w))))]
          else [])\<rparr>"
  by (simp add: sendRoomHistory_def getMessagesByRoom_eq sendErrorToClient_def wsSend_def emit_def)

lemma clients_sendRoomHistory [simp]: "clients (sendRoomHistory cid rid w) = clients w"
  by (simp add: sendRoomHistory_eq)

lemma handleJoinRoom_clients:
  "clients (handleJoinRoom cid userId roomId w) =
     (clients w)[cid := (clients w ! cid)\<lparr>ws_userId := Some userId, ws_roomId := Some roomId\<rparr>]"
  by (simp add: handleJoinRoom_def broadcastActiveUsers_def Let_def)

lemma handleJoinRoom_storage:
  "storage (handleJoinRoom cid userId roomId w) =
     advance (addActiveUser roomId userId (storage w))"
  by (simp add: handleJoinRoom_def sendRoomHistory_eq broadcastActiveUsers_def Let_def)

lemma handleJoinRoom_presence:
  "st_presence (storage (handleJoinRoom cid userId roomId w)) =
     (roomId, userId) # st_presence (storage w)"
  by (simp add: handleJoinRoom_storage advance_fields addActiveUser_def)

lemma getActiveUsers_join:
  "getActiveUsers rid (storage (handleJoinRoom cid userId roomId w)) =
     getActiveUsers rid (addActiveUser roomId userId (storage w))"
  by (simp add: handleJoinRoom_storage)

lemma handleJoinRoom_trace:
  "trace (handleJoinRoom cid userId roomId w) =
     trace w @
       [Broadcast roomId (UserJoined userId roomId)
          (recipients roomId (clients (handleJoinRoom cid userId roomId w))),
        Broadcast roomId
          (ActiveUsers roomId (getActiveUsers roomId (storage (handleJoinRoom cid userId roomId w))))
          (recipients roomId (clients (handleJoinRoom cid userId roomId w)))] @
       (if ws_readyState (clients (handleJoinRoom cid userId roomId w) ! cid) = OPEN
        then [SendTo cid (if fault_at 0 (storage w)
                          then Error ''Failed to load room history''
                          else RoomHistory (st_history (storage w) roomId None
                                             (st_messages (storage w))))]
        else [])"
proof -
  have c: "st_history (addActiveUser roomId userId (storage w)) = st_history (storage w)"
    by (simp add: addActiveUser_def)
  have r: "st_messages (addActiveUser roomId userId (storage w)) = st_messages (storage w)"
    by (simp add: addActiveUser_def)
  have f: "fault_at 0 (addActiveUser roomId userId (storage w)) = fault_at 0 (storage w)"
    by (simp add: addActiveUser_def fault_at_update)
  show ?thesis
    unfolding getActiveUsers_join handleJoinRoom_clients
    by (simp add: handleJoinRoom_def sendRoomHistory_eq broadcastActiveUsers_def Let_def c r f)
qed

lemma getActiveUsers_other_room:
  "R1 \<noteq> R2 \<Longrightarrow>
   getActiveUsers R1 (storage (handleJoinRoom cid U R2 w)) = getActiveUsers R1 (storage w)"
  by (simp add: getActiveUsers_def handleJoinRoom_presence)

lemma recipients_member:
  "i \<in> set (recipients rid cs) \<longleftrightarrow>
     i < length cs \<and> ws_roomId (cs ! i) = Some rid \<and> ws_readyState (cs ! i) = OPEN"
  by (auto simp: recipients_def)

text \<open>
  Claim C10. A \<^verbatim>\<open>join_room\<close> with any user id and room id, on an open connection and
  with a history query that is not rejected, attaches the connection to that identity and
  room, adds the user to the room's active set, and sends \<^verbatim>\<open>user_joined\<close> and
  \<^verbatim>\<open>active_users\<close> to the room (the joining connection included) and \<^verbatim>\<open>room_history\<close>
  to the joining connection. No property of the room or of the user is consulted: the
  statement holds for every storage.
\<close>

theorem join_room_unconditional:
  assumes "cid < length (clients w)"
      and "ws_readyState (clients w ! cid) = OPEN"
      and "\<not> fault_at 0 (storage w)"
  shows "let w' = onMessage gen cid (JoinRoom userId roomId) w in
           ws_userId (clients w' ! cid) = Some userId \<and>
           ws_roomId (clients w' ! cid) = Some roomId \<and>
           st_presence (storage w') = (roomId, userId) # st_presence (storage w) \<and>
           userId \<in> set (getActiveUsers roomId (storage w')) \<and>
           cid \<in> set (recipients roomId (clients w')) \<and>
           trace w' = trace w @
             [Broadcast roomId (UserJoined userId roomId) (recipients roomId (clients w')),
              Broadcast roomId (ActiveUsers roomId (getActiveUsers roomId (storage w')))
                (recipients roomId (clients w')),
              SendTo cid (RoomHistory (st_history (storage w) roomId None
                                        (st_messages (storage w))))]"
  using assms
  by (simp add: Let_def handleJoinRoom_trace handleJoinRoom_presence set_getActiveUsers
      recipients_member handleJoinRoom_clients getActiveUsers_other_room)

theorem join_room_unconditional_witness:
  "0 < length (clients twoConnections) \<and>
   ws_readyState (clients twoConnections ! 0) = OPEN \<and>
   \<not> fault_at 0 (storage twoConnections) \<and>
   ws_userId (clients (onMessage elementary 0 (JoinRoom ''mallory'' 99) twoConnections) ! 0)
     = Some ''mallory'' \<and>
   ws_roomId (clients (onMessage elementary 0 (JoinRoom ''mallory'' 99) twoConnections) ! 0)
     = Some 99 \<and>
   ''mallory'' \<in> set (getActiveUsers 99
       (storage (onMessage elementary 0 (JoinRoom ''mallory'' 99) twoConnections))) \<and>
   trace (onMessage elementary 0 (JoinRoom ''mallory'' 99) twoConnections) =
     [Broadcast 99 (UserJoined ''mallory'' 99) [0],
      Broadcast 99 (ActiveUsers 99 [''mallory'']) [0],
      SendTo 0 (RoomHistory [])]"
proof -
  have l: "0 < length (clients twoConnections)"
    and r: "ws_readyState (clients twoConnections ! 0) = OPEN"
    and f: "\<not> fault_at 0 (storage twoConnections)"
    by (simp_all add: twoConnections_eq fault_at_def initialStorage_def)
  show ?thesis
    using join_room_unconditional [OF l r f, of elementary "''mallory''" 99] l r f
    by (simp add: Let_def handleJoinRoom_clients getActiveUsers_def twoConnections_eq
        recipients_simps initialStorage_def newestFirst_def)
qed

text \<open>
  Claim C1, as the code has it. A \<^verbatim>\<open>join_room\<close> for room \<open>R2\<close> on a connection that is
  attached to a different room \<open>R1\<close> re-points the connection to \<open>R2\<close>, so that broadcasts
  to \<open>R1\<close> no longer reach it, and adds the user to the active set of \<open>R2\<close>. It performs
  no detach for \<open>R1\<close>: the active set of \<open>R1\<close> is what it was, and the only effects are the
  two broadcasts to \<open>R2\<close> and the history reply to the connection, so no \<^verbatim>\<open>user_left\<close>
  is sent.
\<close>

theorem join_room_keeps_old_presence:
  assumes "cid < length (clients w)"
      and "ws_roomId (clients w ! cid) = Some R1"
      and "R1 \<noteq> R2"
  shows "let w' = onMessage gen cid (JoinRoom U R2) w in
           ws_roomId (clients w' ! cid) = Some R2 \<and>
           cid \<notin> set (recipients R1 (clients w')) \<and>
           st_presence (storage w') = (R2, U) # st_presence (storage w) \<and>
           getActiveUsers R1 (storage w') = getActiveUsers R1 (storage w) \<and>
           U \<in> set (getActiveUsers R2 (storage w')) \<and>
           trace w' = trace w @
             [Broadcast R2 (UserJoined U R2) (recipients R2 (clients w')),
              Broadcast R2 (ActiveUsers R2 (getActiveUsers R2 (storage w')))
                (recipients R2 (clients w'))] @
             (if ws_readyState (clients w ! cid) = OPEN
              then [SendTo cid (if fault_at 0 (storage w)
                                then Error ''Failed to load room history''
                                else RoomHistory (st_history (storage w) R2 None
                                                   (st_messages (storage w))))]
              else [])"
  using assms
  by (simp add: Let_def handleJoinRoom_trace handleJoinRoom_presence set_getActiveUsers
      recipients_member handleJoinRoom_clients getActiveUsers_other_room)

theorem join_room_keeps_old_presence_witness:
  "0 < length (clients room7) \<and> ws_roomId (clients room7 ! 0) = Some 7 \<and> (7::int) \<noteq> 8 \<and>
   ws_roomId (clients (onMessage elementary 0 (JoinRoom ''alice'' 8) room7) ! 0) = Some 8 \<and>
   0 \<notin> set (recipients 7 (clients (onMessage elementary 0 (JoinRoom ''alice'' 8) room7))) \<and>
   getActiveUsers 7 (storage (onMessage elementary 0 (JoinRoom ''alice'' 8) room7))
     = [''bob'', ''alice''] \<and>
   getActiveUsers 8 (storage (onMessage elementary 0 (JoinRoom ''alice'' 8) room7))
     = [''alice'']"
proof -
  have l: "0 < length (clients room7)"
    and r: "ws_roomId (clients room7 ! 0) = Some 7"
    by (simp_all add: room7_eq)
  have n: "(7::int) \<noteq> 8"
    by simp
  show ?thesis
    using join_room_keeps_old_presence [OF l r n, of elementary "''alice''"] l r
    by (simp add: Let_def getActiveUsers_def room7_eq initialStorage_def)
qed

text \<open>
  Claim C1 as stated fails: A is attached to room 7 and joins room 8; afterwards the
  connection is in room 8 and A is still in the active set of room 7.
\<close>

theorem join_room_no_detach_counterexample:
  "ws_userId (clients room7 ! 0) = Some ''alice'' \<and>
   ws_roomId (clients room7 ! 0) = Some 7 \<and>
   ws_roomId (clients (onMessage elementary 0 (JoinRoom ''alice'' 8) room7) ! 0) = Some 8 \<and>
   ''alice'' \<in> set (getActiveUsers 7
       (storage (onMessage elementary 0 (JoinRoom ''alice'' 8) room7)))"
  by (simp add: room7_eq handleJoinRoom_clients set_getActiveUsers handleJoinRoom_presence)

section \<open>Leaving a room and closing a connection\<close>

lemma handleLeaveRoom_not_joined:
  "joined (clients w ! cid) = None \<Longrightarrow> handleLeaveRoom cid w = w"
  by (simp add: handleLeaveRoom_def)

lemma handleLeaveRoom_joined:
  assumes "joined (clients w ! cid) = Some (U, R)"
  shows "clients (handleLeaveRoom cid w) =
           (clients w)[cid := (clients w ! cid)\<lparr>ws_userId := None, ws_roomId := None\<rparr>]"
    and "storage (handleLeaveRoom cid w) = removeActiveUser R U (storage w)"
    and "trace (handleLeaveRoom cid w) =
           trace w @
             [Broadcast R (UserLeft U R) (recipients R (clients w)),
              Broadcast R (ActiveUsers R (getActiveUsers R (removeActiveUser R U (storage w))))
                (recipients R (clients w))]"
  using assms by (simp_all add: handleLeaveRoom_def broadcastActiveUsers_def Let_def)

lemma joined_readyState [simp]: "joined (ws\<lparr>ws_readyState := r\<rparr>) = joined ws"
  by (simp add: joined_def split: option.splits)

lemma recipients_closed:
  "recipients R (cs[cid := (cs ! cid)\<lparr>ws_readyState := CLOSED\<rparr>]) =
     filter (\<lambda>i. i \<noteq> cid) (recipients R cs)"
proof -
  have "(ws_roomId (cs[cid := (cs ! cid)\<lparr>ws_readyState := CLOSED\<rparr>] ! i) = Some R \<and>
         ws_readyState (cs[cid := (cs ! cid)\<lparr>ws_readyState := CLOSED\<rparr>] ! i) = OPEN) =
        (i \<noteq> cid \<and> ws_roomId (cs ! i) = Some R \<and> ws_readyState (cs ! i) = OPEN)"
    if "i < length cs" for i
    using that by (cases "i = cid") simp_all
  then show ?thesis
    unfolding recipients_def filter_filter length_list_update
    by (intro filter_cong) auto
qed

lemma count_list_pos: "x \<in> set xs \<longleftrightarrow> 0 < count_list xs x"
  by (induction xs) auto

lemma in_remove1_iff: "x \<in> set (remove1 x xs) \<longleftrightarrow> 2 \<le> count_list xs x"
proof (induction xs)
  case Nil
  show ?case by simp
next
  case (Cons a xs)
  show ?case
  proof (cases "a = x")
    case True
    then show ?thesis
      using count_list_pos [of x xs] by auto
  next
    case False
    then show ?thesis
      using Cons.IH by auto
  qed
qed

lemma room0_eq:
  "room0 =
     \<lparr>clients = [\<lparr>ws_userId = Some ''alice'', ws_roomId = Some 0, ws_readyState = OPEN\<rparr>,
                 \<lparr>ws_userId = Some ''bob'', ws_roomId = Some 0, ws_readyState = OPEN\<rparr>],
      storage = initialStorage\<lparr>st_presence := [(0, ''bob''), (0, ''alice'')]\<rparr>,
      trace = [Broadcast 0 (UserJoined ''alice'' 0) [0],
               Broadcast 0 (ActiveUsers 0 [''alice'']) [0],
               SendTo 0 (RoomHistory []),
               Broadcast 0 (UserJoined ''bob'' 0) [0, 1],
               Broadcast 0 (ActiveUsers 0 [''bob'', ''alice'']) [0, 1],
               SendTo 1 (RoomHistory [])]\<rparr>"
  by (simp add: room0_def twoConnections_eq handleJoinRoom_def broadcastToRoom_def
      broadcastActiveUsers_def sendRoomHistory_def getMessagesByRoom_eq fault_at_def
      addActiveUser_def getActiveUsers_def emit_def wsSend_def recipients_simps
      newestFirst_def initialStorage_def advance_def Let_def)

text \<open>
  Claim C8, as the code has it. When the transport of a connection closes while the
  connection is attached with a non-empty user id and a non-zero room id, the cleanup
  runs: one presence reference of the user for that room is released, so the user is
  still in the active set afterwards exactly when another reference was held; the
  connection loses its identity and room; and \<^verbatim>\<open>user_left\<close>, then \<^verbatim>\<open>active_users\<close> with
  the updated active set, are broadcast to the open connections of the room other than
  the closing one.
\<close>

theorem close_detaches:
  assumes "cid < length (clients w)"
      and "joined (clients w ! cid) = Some (U, R)"
  shows "let w' = onClose cid w in
           st_presence (storage w') = remove1 (R, U) (st_presence (storage w)) \<and>
           (U \<in> set (getActiveUsers R (storage w'))) =
              (2 \<le> count_list (st_presence (storage w)) (R, U)) \<and>
           ws_userId (clients w' ! cid) = None \<and> ws_roomId (clients w' ! cid) = None \<and>
           trace w' = trace w @
             [Broadcast R (UserLeft U R) (filter (\<lambda>i. i \<noteq> cid) (recipients R (clients w))),
              Broadcast R (ActiveUsers R (getActiveUsers R (storage w')))
                (filter (\<lambda>i. i \<noteq> cid) (recipients R (clients w)))]"
proof -
  let ?w0 = "w\<lparr>clients := (clients w)[cid := (clients w ! cid)\<lparr>ws_readyState := CLOSED\<rparr>]\<rparr>"
  have j: "joined (clients ?w0 ! cid) = Some (U, R)"
    using assms by simp
  show ?thesis
    using assms(1)
    by (simp add: onClose_def Let_def handleLeaveRoom_joined [OF j] recipients_closed
        removeActiveUser_def set_getActiveUsers in_remove1_iff)
qed

theorem close_detaches_witness:
  "0 < length (clients room7) \<and> joined (clients room7 ! 0) = Some (''alice'', 7) \<and>
   getActiveUsers 7 (storage (onClose 0 room7)) = [''bob''] \<and>
   trace (onClose 0 room7) = trace room7 @
     [Broadcast 7 (UserLeft ''alice'' 7) [1], Broadcast 7 (ActiveUsers 7 [''bob'']) [1]]"
proof -
  have l: "0 < length (clients room7)"
    by (simp add: room7_eq)
  show ?thesis
    using close_detaches [OF l room7_joined(1)] l room7_joined(1)
    by (simp add: Let_def getActiveUsers_def room7_eq recipients_simps initialStorage_def)
qed

text \<open>
  Claim C8 as stated fails: A and B are attached to room 0 and A's transport closes.
  The guard \<^verbatim>\<open>userId && roomId\<close> is false for room id 0, so A stays in the active set
  of room 0 and nothing is broadcast to B.
\<close>

theorem close_room_zero_counterexample:
  "ws_userId (clients room0 ! 0) = Some ''alice'' \<and> ws_roomId (clients room0 ! 0) = Some 0 \<and>
   recipients 0 (clients room0) = [0, 1] \<and>
   ''alice'' \<in> set (getActiveUsers 0 (storage (onClose 0 room0))) \<and>
   trace (onClose 0 room0) = trace room0"
  by (simp add: room0_eq onClose_def handleLeaveRoom_not_joined joined_def recipients_simps
      getActiveUsers_def)

section \<open>Presence against attached connections\<close>

lemma filter_length_update:
  "i < length xs \<Longrightarrow>
   length (filter P (xs[i := y])) + (if P (xs ! i) then 1 else 0) =
   length (filter P xs) + (if P y then 1 else 0)"
proof (induction xs arbitrary: i)
  case Nil
  then show ?case by simp
next
  case (Cons x xs)
  show ?case
  proof (cases i)
    case 0
    then show ?thesis by simp
  next
    case (Suc j)
    with Cons.prems have "j < length xs" by simp
    from Cons.IH [OF this] Suc show ?thesis by simp
  qed
qed

lemma count_list_remove1:
  "count_list (remove1 x xs) y = count_list xs y - (if x = y then 1 else 0)"
proof (induction xs)
  case Nil
  show ?case by simp
next
  case (Cons a xs)
  show ?case
  proof (cases "a = x")
    case True
    then show ?thesis by simp
  next
    case False
    then show ?thesis
      using Cons.IH count_list_pos [of y xs] by auto
  qed
qed

lemma joined_attachedTo: "joined ws = Some (U, R) \<Longrightarrow> attachedTo rid uid ws = (rid = R \<and> uid = U)"
  by (auto simp: joined_def attachedTo_def split: option.splits if_splits)

lemma presenceCounted_join:
  assumes inv: "presenceCounted w"
      and cid: "cid < length (clients w)"
      and un: "unattached (clients w ! cid)"
  shows "presenceCounted (handleJoinRoom cid userId roomId w)"
  unfolding presenceCounted_def
proof (intro allI)
  fix rid uid
  let ?c' = "(clients w ! cid)\<lparr>ws_userId := Some userId, ws_roomId := Some roomId\<rparr>"
  have old: "\<not> attachedTo rid uid (clients w ! cid)"
    using un by (simp add: unattached_def attachedTo_def)
  have new: "attachedTo rid uid ?c' = (rid = roomId \<and> uid = userId)"
    by (auto simp: attachedTo_def)
  have "length (filter (attachedTo rid uid) ((clients w)[cid := ?c'])) =
          length (filter (attachedTo rid uid) (clients w)) +
          (if rid = roomId \<and> uid = userId then 1 else 0)"
    using filter_length_update [OF cid, of "attachedTo rid uid" ?c'] old new by simp
  moreover have "count_list (st_presence (storage w)) (rid, uid) =
                   length (filter (attachedTo rid uid) (clients w))"
    using inv by (simp add: presenceCounted_def)
  ultimately show "count_list (st_presence (storage (handleJoinRoom cid userId roomId w))) (rid, uid) =
                     length (filter (attachedTo rid uid) (clients (handleJoinRoom cid userId roomId w)))"
    by (auto simp: handleJoinRoom_presence handleJoinRoom_clients)
qed

lemma presenceCounted_leave:
  assumes inv: "presenceCounted w"
      and cid: "cid < length (clients w)"
  shows "presenceCounted (handleLeaveRoom cid w)"
proof (cases "joined (clients w ! cid)")
  case None
  then show ?thesis
    using inv by (simp add: handleLeaveRoom_not_joined)
next
  case (Some p)
  obtain U R where p: "p = (U, R)"
    by (cases p)
  have j: "joined (clients w ! cid) = Some (U, R)"
    using Some p by simp
  show ?thesis
    unfolding presenceCounted_def
  proof (intro allI)
    fix rid uid
    let ?c' = "(clients w ! cid)\<lparr>ws_userId := None, ws_roomId := None\<rparr>"
    have new: "\<not> attachedTo rid uid ?c'"
      by (simp add: attachedTo_def)
    have "length (filter (attachedTo rid uid) ((clients w)[cid := ?c'])) +
            (if rid = R \<and> uid = U then 1 else 0) =
          length (filter (attachedTo rid uid) (clients w))"
      using filter_length_update [OF cid, of "attachedTo rid uid" ?c'] new
        joined_attachedTo [OF j, of rid uid]
      by simp
    moreover have "count_list (st_presence (storage w)) (rid, uid) =
                     length (filter (attachedTo rid uid) (clients w))"
      using inv by (simp add: presenceCounted_def)
    ultimately show "count_list (st_presence (storage (handleLeaveRoom cid w))) (rid, uid) =
                       length (filter (attachedTo rid uid) (clients (handleLeaveRoom cid w)))"
      by (auto simp: handleLeaveRoom_joined [OF j] removeActiveUser_def count_list_remove1)
  qed
qed

lemma presenceCounted_run:
  "presenceCounted w \<Longrightarrow> joinsWhenDetached ops w \<Longrightarrow> presenceCounted (run ops w)"
proof (induction ops arbitrary: w)
  case Nil
  then show ?case by simp
next
  case (Cons op ops)
  show ?case
  proof (cases op)
    case (Join cid userId roomId)
    with Cons.prems have "presenceCounted (handleJoinRoom cid userId roomId w)"
      and "joinsWhenDetached ops (handleJoinRoom cid userId roomId w)"
      by (simp_all add: presenceCounted_join)
    then show ?thesis
      using Cons.IH Join by simp
  next
    case (Leave cid)
    with Cons.prems have "presenceCounted (handleLeaveRoom cid w)"
      and "joinsWhenDetached ops (handleLeaveRoom cid w)"
      by (simp_all add: presenceCounted_leave)
    then show ?thesis
      using Cons.IH Leave by simp
  qed
qed

lemma presenceCounted_active:
  assumes "presenceCounted w"
  shows "(uid \<in> set (getActiveUsers rid (storage w))) =
           (\<exists>c \<in> set (clients w). attachedTo rid uid c)"
proof -
  have "(uid \<in> set (getActiveUsers rid (storage w))) =
          (0 < count_list (st_presence (storage w)) (rid, uid))"
    using count_list_pos [of "(rid, uid)" "st_presence (storage w)"]
    by (simp add: set_getActiveUsers)
  also have "\<dots> = (0 < length (filter (attachedTo rid uid) (clients w)))"
    using assms by (simp add: presenceCounted_def)
  also have "\<dots> = (\<exists>c \<in> set (clients w). attachedTo rid uid c)"
    by (simp add: filter_empty_conv)
  finally show ?thesis .
qed

lemma presenceCounted_twoConnections: "presenceCounted twoConnections"
  by (simp add: presenceCounted_def twoConnections_eq initialStorage_def attachedTo_def)

text \<open>
  Claim C4, as the code has it, with the reference-counted presence tracker. Start from a
  state in which the reference count of every pair is the number of connections attached
  to it, and run any sequence of \<^verbatim>\<open>join_room\<close> and \<^verbatim>\<open>leave_room\<close> operations in which
  every \<^verbatim>\<open>join_room\<close> is issued on a connection that is not attached at that moment.
  Then the active set of a room contains a user id if and only if some connection is
  attached with that user id and room; so detaching one of several attached connections
  of a user does not remove the user.
\<close>

theorem active_iff_attached:
  assumes "presenceCounted w"
      and "joinsWhenDetached ops w"
  shows "(uid \<in> set (getActiveUsers rid (storage (run ops w)))) =
           (\<exists>c \<in> set (clients (run ops w)). attachedTo rid uid c)"
  using assms by (intro presenceCounted_active presenceCounted_run)

theorem active_iff_attached_witness:
  "presenceCounted twoConnections \<and>
   joinsWhenDetached [Join 0 ''alice'' 7, Join 1 ''alice'' 7, Leave 0] twoConnections \<and>
   ''alice'' \<in> set (getActiveUsers 7
       (storage (run [Join 0 ''alice'' 7, Join 1 ''alice'' 7, Leave 0] twoConnections))) \<and>
   attachedTo 7 ''alice''
     (clients (run [Join 0 ''alice'' 7, Join 1 ''alice'' 7, Leave 0] twoConnections) ! 1)"
proof -
  have j: "joinsWhenDetached [Join 0 ''alice'' 7, Join 1 ''alice'' 7, Leave 0] twoConnections"
    by (simp add: handleJoinRoom_clients twoConnections_eq unattached_def)
  have a: "clients (run [Join 0 ''alice'' 7, Join 1 ''alice'' 7, Leave 0] twoConnections) =
             [\<lparr>ws_userId = None, ws_roomId = None, ws_readyState = OPEN\<rparr>,
              \<lparr>ws_userId = Some ''alice'', ws_roomId = Some 7, ws_readyState = OPEN\<rparr>]"
    by (simp add: handleJoinRoom_clients twoConnections_eq handleLeaveRoom_def joined_def
        broadcastActiveUsers_def Let_def)
  show ?thesis
    unfolding a
    using active_iff_attached [OF presenceCounted_twoConnections j, of "''alice''" 7, unfolded a]
      j presenceCounted_twoConnections
    by (simp add: attachedTo_def)
qed

text \<open>
  Claim C4 as stated fails: one connection joins room 7 as A twice and then leaves.
  No connection is attached afterwards, but A is still in the active set of room 7.
\<close>

theorem rejoin_leaves_stale_presence_counterexample:
  "clients (run [Join 0 ''alice'' 7, Join 0 ''alice'' 7, Leave 0] twoConnections) =
     [\<lparr>ws_userId = None, ws_roomId = None, ws_readyState = OPEN\<rparr>,
      \<lparr>ws_userId = None, ws_roomId = None, ws_readyState = OPEN\<rparr>] \<and>
   ''alice'' \<in> set (getActiveUsers 7
       (storage (run [Join 0 ''alice'' 7, Join 0 ''alice'' 7, Leave 0] twoConnections)))"
  by (simp add: handleJoinRoom_clients twoConnections_eq handleLeaveRoom_def joined_def
        broadcastActiveUsers_def Let_def set_getActiveUsers handleJoinRoom_presence
        removeActiveUser_def)

section \<open>Sending a message with a persona\<close>

lemma awaitCreateMessage_eq:
  "awaitCreateMessage ins w =
     (if fault_at 0 (storage w) \<or> \<not> exactlyOneAuthor ins
      then Inl (w\<lparr>storage := advance (storage w)\<rparr>)
      else Inr (\<lparr>msg_id = st_nextMessageId (storage w), msg_roomId = im_roomId ins,
                 msg_userId = im_userId ins, msg_personaId = im_personaId ins,
                 msg_message = im_message ins, msg_isStarred = False\<rparr>,
                w\<lparr>storage := (advance (storage w))\<lparr>st_messages :=
                       \<lparr>msg_id = st_nextMessageId (storage w), msg_roomId = im_roomId ins,
                        msg_userId = im_userId ins, msg_personaId = im_personaId ins,
                        msg_message = im_message ins, msg_isStarred = False\<rparr>
                       # st_messages (storage w),
                     st_nextMessageId := st_nextMessageId (storage w) + 1\<rparr>,
                  trace := trace w @
                    [CreatedMessage
                       \<lparr>msg_id = st_nextMessageId (storage w), msg_roomId = im_roomId ins,
                        msg_userId = im_userId ins, msg_personaId = im_personaId ins,
                        msg_message = im_message ins, msg_isStarred = False\<rparr>]\<rparr>))"
  by (simp add: awaitCreateMessage_def createMessage_eq emit_def)

lemma awaitGetUser_eq:
  "awaitGetUser uid w =
     (if fault_at 0 (storage w) then Inl (w\<lparr>storage := advance (storage w)\<rparr>)
      else Inr (find (\<lambda>u. user_id u = uid) (st_users (storage w)),
                w\<lparr>storage := advance (storage w)\<rparr>))"
  by (simp add: awaitGetUser_def getUser_eq)

lemma awaitGetPersona_eq:
  "awaitGetPersona pid w =
     (if fault_at 0 (storage w) then Inl (w\<lparr>storage := advance (storage w)\<rparr>)
      else Inr (find (\<lambda>p. persona_id p = pid) (st_personas (storage w)),
                w\<lparr>storage := advance (storage w)\<rparr>))"
  by (simp add: awaitGetPersona_def getPersona_eq)

lemma awaitGetMessagesByRoom_eq:
  "awaitGetMessagesByRoom rid (Some n) w =
     (if fault_at 0 (storage w) then Inl (w\<lparr>storage := advance (storage w)\<rparr>)
      else Inr (st_history (storage w) rid (Some n) (st_messages (storage w)),
                w\<lparr>storage := advance (storage w)\<rparr>))"
  by (simp add: awaitGetMessagesByRoom_def getMessagesByRoom_eq)

lemma generateCalls_append [simp]:
  "generateCalls (xs @ ys) = generateCalls xs @ generateCalls ys"
  by (induction xs rule: generateCalls.induct) simp_all

text \<open>The fallback block.\<close>

lemma fallbackReply_eq:
  "fallbackReply R P w =
     (if fault_at 0 (storage w) then
        (w\<lparr>storage := advance (storage w),
           trace := trace w @
             [Broadcast R (AiError P ''Failed to generate AI response'')
                (recipients R (clients w))]\<rparr>)
      else if fault_at 1 (storage w) then
        (w\<lparr>storage := advance (advance (storage w)),
           trace := trace w @
             [Broadcast R (AiError P ''Failed to generate AI response'')
                (recipients R (clients w))]\<rparr>)
      else
        (w\<lparr>storage := (advance (advance (storage w)))\<lparr>st_messages :=
                 \<lparr>msg_id = st_nextMessageId (storage w), msg_roomId = R,
                  msg_userId = None, msg_personaId = Some P,
                  msg_message = fallbackText, msg_isStarred = False\<rparr>
                 # st_messages (storage w),
               st_nextMessageId := st_nextMessageId (storage w) + 1\<rparr>,
           trace := trace w @
             [CreatedMessage
                \<lparr>msg_id = st_nextMessageId (storage w), msg_roomId = R,
                 msg_userId = None, msg_personaId = Some P,
                 msg_message = fallbackText, msg_isStarred = False\<rparr>,
              Broadcast R
                (NewMessage
                   (withPersona
                      \<lparr>msg_id = st_nextMessageId (storage w), msg_roomId = R,
                       msg_userId = None, msg_personaId = Some P,
                       msg_message = fallbackText, msg_isStarred = False\<rparr>
                      (find (\<lambda>p. persona_id p = P) (st_personas (storage w)))))
                (recipients R (clients w))]\<rparr>))"
  by (simp add: fallbackReply_def awaitGetPersona_eq awaitCreateMessage_eq broadcastToRoom_def
      emit_def fault_at_advance advance_fields exactlyOneAuthor_def)


lemma clients_fallbackReply [simp]: "clients (fallbackReply R P w) = clients w"
  by (simp add: fallbackReply_eq)


lemma generateReply_failed:
  assumes "\<not> fault_at 0 (storage w)" and "\<not> fault_at 1 (storage w)"
      and "find (\<lambda>p. persona_id p = P) (st_personas (storage w)) = Some persona"
      and "gen persona (aiContext um user
                          (st_history (storage w) R (Some 5) (st_messages (storage w)))) = None"
  shows "generateReply gen cid R P um user w =
           Inl (w\<lparr>storage := advance (advance (storage w)),
                  trace := trace w @
                    [Broadcast R (PersonaTyping P R) (recipients R (clients w)),
                     Generate persona
                       (aiContext um user
                          (st_history (storage w) R (Some 5) (st_messages (storage w))))]\<rparr>)"
  using assms
  by (simp add: generateReply_def Let_def awaitGetPersona_eq awaitGetMessagesByRoom_eq
        broadcastToRoom_def emit_def fault_at_advance advance_fields)

lemma storage_after_user_message:
  fixes st :: Storage and um :: Message
  defines "st3 \<equiv> advance ((advance st)\<lparr>st_messages := um # st_messages st,
                               st_nextMessageId := st_nextMessageId st + 1\<rparr>)"
  shows "fault_at k st3 = fault_at (Suc (Suc k)) st"
    and "st_personas st3 = st_personas st"
    and "st_users st3 = st_users st"
    and "st_messages st3 = um # st_messages st"
    and "st_attachments st3 = st_attachments st"
    and "st_nextMessageId st3 = st_nextMessageId st + 1"
    and "st_history st3 = st_history st"
  unfolding st3_def
  by (simp_all add: fault_at_advance fault_at_update advance_fields)


lemma handleSendMessage_persona:
  fixes w :: World and R :: int and U message :: string
  defines "st \<equiv> storage w"
  defines "um \<equiv> \<lparr>msg_id = st_nextMessageId st, msg_roomId = R, msg_userId = Some U,
                  msg_personaId = None, msg_message = message, msg_isStarred = False\<rparr>"
  defines "user \<equiv> find (\<lambda>u. user_id u = U) (st_users st)"
  defines "w3 \<equiv> w\<lparr>storage := advance ((advance st)\<lparr>st_messages := um # st_messages st,
                                 st_nextMessageId := st_nextMessageId st + 1\<rparr>),
                   trace := trace w @
                     [CreatedMessage um,
                      Broadcast R (NewMessage (withUser um user)) (recipients R (clients w))]\<rparr>"
  assumes j: "joined (clients w ! cid) = Some (U, R)"
      and p: "truthyId personaId = Some P"
      and f0: "\<not> fault_at 0 st" and f1: "\<not> fault_at 1 st"
  shows "handleSendMessage gen cid message personaId w =
           (case generateReply gen cid R P um user w3 of
              Inl w4 \<Rightarrow> fallbackReply R P w4
            | Inr w4 \<Rightarrow> w4)"
proof -
  have c: "awaitCreateMessage \<lparr>im_roomId = R, im_userId = Some U, im_personaId = None,
                               im_message = message\<rparr> w =
             Inr (um, w\<lparr>storage := (advance st)\<lparr>st_messages := um # st_messages st,
                                      st_nextMessageId := st_nextMessageId st + 1\<rparr>,
                        trace := trace w @ [CreatedMessage um]\<rparr>)"
    using f0 unfolding um_def st_def
    by (simp add: awaitCreateMessage_eq exactlyOneAuthor_def)
  have u: "awaitGetUser U (w\<lparr>storage := (advance st)\<lparr>st_messages := um # st_messages st,
                                      st_nextMessageId := st_nextMessageId st + 1\<rparr>,
                        trace := trace w @ [CreatedMessage um]\<rparr>) =
             Inr (user, w\<lparr>storage := advance ((advance st)\<lparr>st_messages := um # st_messages st,
                                      st_nextMessageId := st_nextMessageId st + 1\<rparr>),
                        trace := trace w @ [CreatedMessage um]\<rparr>)"
    using f1 unfolding user_def
    by (simp add: awaitGetUser_eq fault_at_update fault_at_advance advance_fields)
  show ?thesis
    unfolding handleSendMessage_def j option.case prod.case c sum.case u Let_def p
    by (simp add: broadcastToRoom_def emit_def w3_def)
qed

lemma room7_facts:
  "clients room7 ! 0 = \<lparr>ws_userId = Some ''alice'', ws_roomId = Some 7, ws_readyState = OPEN\<rparr>"
  "recipients 7 (clients room7) = [0, 1]"
  "st_nextMessageId (storage room7) = 1"
  "st_messages (storage room7) = []"
  "st_history (storage room7) = newestFirst"
  "st_users (storage room7) = [alice, bob]"
  "st_personas (storage room7) = [sherlock]"
  "st_faults (storage room7) = []"
  by (simp_all add: room7_eq recipients_simps initialStorage_def)

lemma scenario_lookups:
  "user_id alice = ''alice''"
  "persona_id sherlock = 3"
  "truthyId (Some 3) = Some 3"
  by (simp_all add: alice_def sherlock_def truthyId_def)

text \<open>
  Claim C3. For a \<^verbatim>\<open>send_message\<close> with a persona id on a joined connection whose
  message is stored and whose author is read without a rejection, the effects of the
  handler are exactly these, in this order: the human message is stored; it is broadcast
  to the room as \<^verbatim>\<open>new_message\<close>; \<^verbatim>\<open>persona_typing\<close> is broadcast to the room; then the
  reply. When the persona and the history are read and the persona exists, the reply is
  the generation call followed, if it succeeds and its result is stored, by the stored
  message of the persona and its \<^verbatim>\<open>new_message\<close> broadcast to the room, and otherwise
  by the fallback. When the persona does not exist the reply is one error to the sender.
  When reading the persona or the history is rejected the reply is the fallback. The
  fallback is the stored fallback message of the persona and its \<^verbatim>\<open>new_message\<close>
  broadcast to the room, or one \<^verbatim>\<open>ai_error\<close> broadcast when a storage call of the
  fallback block is rejected. So the broadcast of the human message always comes before
  the typing indicator, which always comes before the generation call and before the
  one broadcast of the persona's reply or fallback.
\<close>

theorem reply_follows_typing:
  fixes w :: World and R P :: int and U message :: string and gen :: Generator
  defines "st \<equiv> storage w"
  defines "um \<equiv> \<lparr>msg_id = st_nextMessageId st, msg_roomId = R, msg_userId = Some U,
                  msg_personaId = None, msg_message = message, msg_isStarred = False\<rparr>"
  defines "user \<equiv> find (\<lambda>u. user_id u = U) (st_users st)"
  defines "rc \<equiv> recipients R (clients w)"
  defines "ctx \<equiv> aiContext um user (st_history st R (Some 5) (um # st_messages st))"
  defines "reply \<equiv> \<lambda>text. \<lparr>msg_id = st_nextMessageId st + 1, msg_roomId = R,
                              msg_userId = None, msg_personaId = Some P,
                              msg_message = text, msg_isStarred = False\<rparr>"
  defines "fallback \<equiv> \<lambda>k.
             if fault_at k st \<or> fault_at (Suc k) st
             then [Broadcast R (AiError P ''Failed to generate AI response'') rc]
             else [CreatedMessage
                     (reply ''I'm having trouble accessing my knowledge. Please try again later.''),
                   Broadcast R
                     (NewMessage
                        (withPersona
                           (reply ''I'm having trouble accessing my knowledge. Please try again later.'')
                           (find (\<lambda>p. persona_id p = P) (st_personas st))))
                     rc]"
  assumes j: "joined (clients w ! cid) = Some (U, R)"
      and p: "truthyId personaId = Some P"
      and f0: "\<not> fault_at 0 st" and f1: "\<not> fault_at 1 st"
  shows "trace (onMessage gen cid (SendMessage message personaId) w) =
           trace w @
             [CreatedMessage um,
              Broadcast R (NewMessage (withUser um user)) rc,
              Broadcast R (PersonaTyping P R) rc] @
             (if fault_at 2 st then fallback 3
              else case find (\<lambda>p. persona_id p = P) (st_personas st) of
                None \<Rightarrow>
                  if ws_readyState (clients w ! cid) = OPEN
                  then [SendTo cid (Error ''Persona not found'')] else []
              | Some persona \<Rightarrow>
                  if fault_at 3 st then fallback 4
                  else Generate persona ctx #
                       (case gen persona ctx of
                          None \<Rightarrow> fallback 4
                        | Some text \<Rightarrow>
                            if fault_at 4 st then fallback 5
                            else [CreatedMessage (reply text),
                                  Broadcast R
                                    (NewMessage (withPersona (reply text) (Some persona))) rc]))"
proof -
  define st3 where "st3 = advance ((advance st)\<lparr>st_messages := um # st_messages st,
                                 st_nextMessageId := st_nextMessageId st + 1\<rparr>)"
  define w3 where "w3 = w\<lparr>storage := st3,
                   trace := trace w @
                     [CreatedMessage um, Broadcast R (NewMessage (withUser um user)) rc]\<rparr>"
  have h: "handleSendMessage gen cid message personaId w =
             (case generateReply gen cid R P um user w3 of
                Inl v \<Rightarrow> fallbackReply R P v
              | Inr v \<Rightarrow> v)"
    using handleSendMessage_persona [OF j p, of gen message] f0 f1
    unfolding st_def um_def user_def w3_def st3_def rc_def by simp
  have w3: "storage w3 = st3" "clients w3 = clients w"
    "trace w3 = trace w @ [CreatedMessage um, Broadcast R (NewMessage (withUser um user)) rc]"
    by (simp_all add: w3_def)
  have s3: "fault_at k st3 = fault_at (Suc (Suc k)) st" "st_personas st3 = st_personas st"
    "st_messages st3 = um # st_messages st" "st_nextMessageId st3 = st_nextMessageId st + 1"
    "st_history st3 = st_history st" for k
    unfolding st3_def by (simp_all add: storage_after_user_message)
  have n: "fault_at 2 st = fault_at (Suc (Suc 0)) st" "fault_at 3 st = fault_at (Suc (Suc (Suc 0))) st"
    "fault_at 4 st = fault_at (Suc (Suc (Suc (Suc 0)))) st"
    by (simp_all add: eval_nat_numeral)
  show ?thesis
    unfolding onMessage.simps h n
    by (simp add: generateReply_def Let_def awaitGetPersona_eq awaitGetMessagesByRoom_eq
          awaitCreateMessage_eq fallbackReply_eq broadcastToRoom_def emit_def
          sendErrorToClient_def fault_at_advance fault_at_update advance_fields
          exactlyOneAuthor_def w3 s3 fallback_def reply_def ctx_def rc_def fallbackText_def
          eval_nat_numeral
        split: option.splits)
qed

theorem reply_follows_typing_witness:
  "joined (clients room7 ! 0) = Some (''alice'', 7) \<and> truthyId (Some 3) = Some 3 \<and>
   \<not> fault_at 0 (storage room7) \<and> \<not> fault_at 1 (storage room7) \<and>
   trace (onMessage elementary 0 (SendMessage ''hello'' (Some 3)) room7) =
     trace room7 @
       [CreatedMessage
          \<lparr>msg_id = 1, msg_roomId = 7, msg_userId = Some ''alice'',
           msg_personaId = None, msg_message = ''hello'', msg_isStarred = False\<rparr>,
        Broadcast 7
          (NewMessage
             (withUser
                \<lparr>msg_id = 1, msg_roomId = 7, msg_userId = Some ''alice'',
                 msg_personaId = None, msg_message = ''hello'', msg_isStarred = False\<rparr>
                (Some alice)))
          [0, 1],
        Broadcast 7 (PersonaTyping 3 7) [0, 1],
        Generate sherlock
          [withUser
             \<lparr>msg_id = 1, msg_roomId = 7, msg_userId = Some ''alice'',
              msg_personaId = None, msg_message = ''hello'', msg_isStarred = False\<rparr>
             (Some alice)],
        CreatedMessage
          \<lparr>msg_id = 2, msg_roomId = 7, msg_userId = None, msg_personaId = Some 3,
           msg_message = ''Elementary, my dear Watson.'', msg_isStarred = False\<rparr>,
        Broadcast 7
          (NewMessage
             (withPersona
                \<lparr>msg_id = 2, msg_roomId = 7, msg_userId = None, msg_personaId = Some 3,
                 msg_message = ''Elementary, my dear Watson.'', msg_isStarred = False\<rparr>
                (Some sherlock)))
          [0, 1]]"
proof -
  have j: "joined (clients room7 ! 0) = Some (''alice'', 7)"
    by (rule room7_joined)
  have p: "truthyId (Some 3) = Some 3"
    by (rule scenario_lookups)
  have f: "\<not> fault_at k (storage room7)" for k
    by (simp add: fault_at_def room7_facts)
  show ?thesis
    using reply_follows_typing [where gen = elementary and message = "''hello''", OF j p f f]
      j p f
    by (simp add: room7_facts scenario_lookups elementary_def newestFirst_def bare_def
        aiContext_def)
qed





text \<open>
  Claim C2. For a \<^verbatim>\<open>send_message\<close> with a persona id where the generation call is
  reached and fails: after the human message, the typing indicator and the generation
  call, the handler either stores a message authored by the same persona with the fixed
  fallback text and broadcasts it as \<^verbatim>\<open>new_message\<close>, or, when a storage call of the
  fallback block is rejected (re-reading the persona, or storing the fallback message),
  broadcasts exactly one \<^verbatim>\<open>ai_error\<close> with the persona id and stores no fallback
  message. No \<^verbatim>\<open>error\<close> envelope is sent in either case.
\<close>

theorem generation_failure_fallback:
  fixes w :: World and R P :: int and U message :: string
  defines "st \<equiv> storage w"
  defines "um \<equiv> \<lparr>msg_id = st_nextMessageId st, msg_roomId = R, msg_userId = Some U,
                  msg_personaId = None, msg_message = message, msg_isStarred = False\<rparr>"
  defines "user \<equiv> find (\<lambda>u. user_id u = U) (st_users st)"
  defines "rc \<equiv> recipients R (clients w)"
  defines "ctx \<equiv> aiContext um user (st_history st R (Some 5) (um # st_messages st))"
  defines "fb \<equiv> \<lparr>msg_id = st_nextMessageId st + 1, msg_roomId = R, msg_userId = None,
                  msg_personaId = Some P,
                  msg_message =
                    ''I'm having trouble accessing my knowledge. Please try again later.'',
                  msg_isStarred = False\<rparr>"
  assumes j: "joined (clients w ! cid) = Some (U, R)"
      and p: "truthyId personaId = Some P"
      and f0: "\<not> fault_at 0 st" and f1: "\<not> fault_at 1 st"
      and f2: "\<not> fault_at 2 st" and f3: "\<not> fault_at 3 st"
      and persona: "find (\<lambda>p. persona_id p = P) (st_personas st) = Some persona"
      and genfail: "gen persona ctx = None"
  shows "trace (onMessage gen cid (SendMessage message personaId) w) =
           trace w @
             [CreatedMessage um,
              Broadcast R (NewMessage (withUser um user)) rc,
              Broadcast R (PersonaTyping P R) rc,
              Generate persona ctx] @
             (if fault_at 4 st \<or> fault_at 5 st
              then [Broadcast R (AiError P ''Failed to generate AI response'') rc]
              else [CreatedMessage fb,
                    Broadcast R (NewMessage (withPersona fb (Some persona))) rc]) \<and>
         st_messages (storage (onMessage gen cid (SendMessage message personaId) w)) =
           (if fault_at 4 st \<or> fault_at 5 st then [] else [fb]) @ um # st_messages st"
proof -
  define st3 where "st3 = advance ((advance st)\<lparr>st_messages := um # st_messages st,
                                 st_nextMessageId := st_nextMessageId st + 1\<rparr>)"
  define w3 where "w3 = w\<lparr>storage := st3,
                   trace := trace w @
                     [CreatedMessage um, Broadcast R (NewMessage (withUser um user)) rc]\<rparr>"
  define w4 where "w4 = w3\<lparr>storage := advance (advance st3),
                   trace := trace w3 @ [Broadcast R (PersonaTyping P R) rc, Generate persona ctx]\<rparr>"
  have h: "handleSendMessage gen cid message personaId w =
             (case generateReply gen cid R P um user w3 of
                Inl v \<Rightarrow> fallbackReply R P v
              | Inr v \<Rightarrow> v)"
    using handleSendMessage_persona [OF j p, of gen message] f0 f1
    unfolding st_def um_def user_def w3_def st3_def rc_def by simp
  have s3: "storage w3 = st3" and c3: "clients w3 = clients w"
    by (simp_all add: w3_def)
  have g0: "\<not> fault_at 0 (storage w3)" and g1: "\<not> fault_at 1 (storage w3)"
    using f2 f3 unfolding s3 st3_def
    by (simp_all add: storage_after_user_message eval_nat_numeral)
  have gp: "find (\<lambda>p. persona_id p = P) (st_personas (storage w3)) = Some persona"
    using persona unfolding s3 st3_def by (simp add: storage_after_user_message)
  have hi: "st_history st3 R (Some 5) (st_messages st3) =
              st_history st R (Some 5) (um # st_messages st)"
    unfolding st3_def by (simp add: storage_after_user_message)
  have gf: "gen persona (aiContext um user
              (st_history (storage w3) R (Some 5) (st_messages (storage w3)))) = None"
    using genfail unfolding s3 hi ctx_def .
  have gr: "generateReply gen cid R P um user w3 = Inl w4"
    using generateReply_failed
            [where gen = gen and w = w3 and um = um and user = user and R = R and cid = cid,
             OF g0 g1 gp gf]
    unfolding w4_def s3 hi c3 ctx_def rc_def .
  have s4: "storage w4 = advance (advance st3)" and c4: "clients w4 = clients w"
    and t4: "trace w4 = trace w @
               [CreatedMessage um, Broadcast R (NewMessage (withUser um user)) rc,
                Broadcast R (PersonaTyping P R) rc, Generate persona ctx]"
    by (simp_all add: w4_def w3_def)
  have k0: "fault_at 0 (storage w4) = fault_at 4 st"
    and k1: "fault_at (Suc 0) (storage w4) = fault_at 5 st"
    unfolding s4 st3_def
    by (simp_all add: fault_at_advance fault_at_update eval_nat_numeral)
  have n4: "st_nextMessageId (storage w4) = st_nextMessageId st + 1"
    and m4: "st_messages (storage w4) = um # st_messages st"
    and p4: "find (\<lambda>p. persona_id p = P) (st_personas (storage w4)) = Some persona"
    using persona unfolding s4 st3_def
    by (simp_all add: storage_after_user_message advance_fields)
  have fbt: "fb = \<lparr>msg_id = st_nextMessageId (storage w4), msg_roomId = R, msg_userId = None,
                   msg_personaId = Some P, msg_message = fallbackText, msg_isStarred = False\<rparr>"
    by (simp add: fb_def n4 fallbackText_def)
  have res: "handleSendMessage gen cid message personaId w = fallbackReply R P w4"
    by (simp add: h gr)
  show ?thesis
    unfolding onMessage.simps res
    by (simp add: fallbackReply_eq [of R P w4] fbt [symmetric] k0 k1 m4 p4 t4 c4 rc_def
        advance_fields)
qed

theorem generation_failure_fallback_witness:
  "joined (clients room7 ! 0) = Some (''alice'', 7) \<and> truthyId (Some 3) = Some 3 \<and>
   \<not> fault_at 0 (storage room7) \<and> \<not> fault_at 1 (storage room7) \<and>
   \<not> fault_at 2 (storage room7) \<and> \<not> fault_at 3 (storage room7) \<and>
   find (\<lambda>p. persona_id p = 3) (st_personas (storage room7)) = Some sherlock \<and>
   st_messages (storage (onMessage failing 0 (SendMessage ''hello'' (Some 3)) room7)) =
     [\<lparr>msg_id = 2, msg_roomId = 7, msg_userId = None, msg_personaId = Some 3,
       msg_message = ''I'm having trouble accessing my knowledge. Please try again later.'',
       msg_isStarred = False\<rparr>,
      \<lparr>msg_id = 1, msg_roomId = 7, msg_userId = Some ''alice'', msg_personaId = None,
       msg_message = ''hello'', msg_isStarred = False\<rparr>] \<and>
   st_messages (storage (onMessage failing 0 (SendMessage ''hello'' (Some 3)) room7Failing)) =
     [\<lparr>msg_id = 1, msg_roomId = 7, msg_userId = Some ''alice'', msg_personaId = None,
       msg_message = ''hello'', msg_isStarred = False\<rparr>] \<and>
   last (trace (onMessage failing 0 (SendMessage ''hello'' (Some 3)) room7Failing)) =
     Broadcast 7 (AiError 3 ''Failed to generate AI response'') [0, 1]"
proof -
  have j: "joined (clients room7 ! 0) = Some (''alice'', 7)"
    by (rule room7_joined)
  have p: "truthyId (Some 3) = Some 3"
    by (rule scenario_lookups)
  have f: "\<not> fault_at 0 (storage room7)" "\<not> fault_at 1 (storage room7)"
    "\<not> fault_at 2 (storage room7)" "\<not> fault_at 3 (storage room7)"
    "\<not> fault_at 4 (storage room7)" "\<not> fault_at 5 (storage room7)"
    by (simp_all add: fault_at_def room7_facts)
  have s: "find (\<lambda>p. persona_id p = 3) (st_personas (storage room7)) = Some sherlock"
    by (simp add: room7_facts scenario_lookups)
  have g: "failing sherlock ctx = None" for ctx
    by (simp add: failing_def)
  have j': "joined (clients room7Failing ! 0) = Some (''alice'', 7)"
    using j by (simp add: room7Failing_def)
  have f': "\<not> fault_at 0 (storage room7Failing)" "\<not> fault_at 1 (storage room7Failing)"
    "\<not> fault_at 2 (storage room7Failing)" "\<not> fault_at 3 (storage room7Failing)"
    "\<not> fault_at 4 (storage room7Failing)" "fault_at 5 (storage room7Failing)"
    by (simp_all add: fault_at_def room7Failing_def eval_nat_numeral)
  have s': "find (\<lambda>p. persona_id p = 3) (st_personas (storage room7Failing)) = Some sherlock"
    using s by (simp add: room7Failing_def)
  have m': "st_messages (storage room7Failing) = []"
    "st_nextMessageId (storage room7Failing) = 1"
    "recipients 7 (clients room7Failing) = [0, 1]"
    by (simp_all add: room7Failing_def room7_facts)
  show ?thesis
    using generation_failure_fallback
            [where gen = failing and w = room7 and message = "''hello''", OF j p f(1-4) s g]
      generation_failure_fallback
            [where gen = failing and w = room7Failing and message = "''hello''",
             OF j' p f'(1-4) s' g]
      j p f s f' m'
    by (simp add: room7_facts)
qed

end
